theory Spec2Isabelle
  imports Main
begin

section \<open>Snapgram: the Appwrite API layer (src/lib/appwrite/api.ts)\<close>

text \<open>
  The file under verification is a set of asynchronous workflows, each a sequence of
  calls to the Appwrite SDK inside a \<^verbatim>\<open>try { ... } catch (error) { console.log(error) }\<close>.
  The embedding below keeps that shape: a workflow is a function from the state of
  the remote service to an outcome and the new state, an exception is the left
  summand of the outcome, and \<^verbatim>\<open>try/catch\<close> is a combinator.
\<close>

subsection \<open>Strings and the tag conversion\<close>

text \<open>
  JavaScript strings are sequences of UTF-16 code units; the two string operations of
  the file look for the space (U+0020) and the comma (U+002C) only, so a string is
  modelled as a list of characters and every other character is opaque.

  \<^verbatim>\<open>s.replace(/ /g, "")\<close> removes every space character, and nothing else: the
  regular expression is a literal space, not the class \<^verbatim>\<open>\s\<close>.
\<close>

definition replace_spaces :: "string \<Rightarrow> string" where
  "replace_spaces s = filter (\<lambda>c. c \<noteq> CHR '' '') s"

text \<open>
  \<^verbatim>\<open>s.split(",")\<close>: the pieces between the commas. The result is never empty: the
  empty string splits into one empty piece.
\<close>

fun split_comma :: "string \<Rightarrow> string list" where
  "split_comma [] = [[]]"
| "split_comma (c # cs) =
     (if c = CHR '','' then [] # split_comma cs
      else (case split_comma cs of
              [] \<Rightarrow> [[c]]
            | t # ts \<Rightarrow> (c # t) # ts))"

text \<open>
  \<^verbatim>\<open>xs.join(",")\<close>, which PostForm uses to show the stored tags of a post in the
  tags input again (\<^verbatim>\<open>tags: post ? post.tags.join(",") : ""\<close>).
\<close>

fun join_comma :: "string list \<Rightarrow> string" where
  "join_comma [] = []"
| "join_comma [t] = t"
| "join_comma (t # u # ts) = t @ CHR '','' # join_comma (u # ts)"

text \<open>
  The expression of createPost (line 119) and updatePost (line 288):
  \<^verbatim>\<open>post.tags?.replace(/ /g, "").split(",") || []\<close>.
  The field \<^verbatim>\<open>tags\<close> is optional: \<open>None\<close> is \<^verbatim>\<open>undefined\<close>. The optional chain
  gives \<^verbatim>\<open>undefined\<close> for it, and \<^verbatim>\<open>|| []\<close> the empty array. An array is truthy
  whatever it holds, so for a string the result of \<^verbatim>\<open>split\<close> stands.
\<close>

definition convert_tags :: "string option \<Rightarrow> string list" where
  "convert_tags tags =
     (case tags of
        None \<Rightarrow> []
      | Some s \<Rightarrow> split_comma (replace_spaces s))"

subsection \<open>Values, documents, queries\<close>

text \<open>
  The values the file writes into documents: strings (ids, captions, URLs), arrays of
  strings (tags, likes) and \<^verbatim>\<open>undefined\<close> (an optional field the caller left out).
  An object literal and a stored document are lists of (field name, value) pairs, in
  the order the source writes them; \<open>map_of\<close> reads a field.
\<close>

datatype jsval = JUndefined | JStr string | JList "string list"

type_synonym document = "(string \<times> jsval) list"

definition js_opt :: "string option \<Rightarrow> jsval" where
  "js_opt s = (case s of None \<Rightarrow> JUndefined | Some t \<Rightarrow> JStr t)"

text \<open>
  Modelled from the spec: ./config, which defines \<^verbatim>\<open>appwriteConfig\<close>, is not among the
  sources. The document store keeps its documents in named collections; the file names
  three of them, \<^verbatim>\<open>userCollectionId\<close>, \<^verbatim>\<open>postCollectionId\<close> and
  \<^verbatim>\<open>savesCollectionId\<close>. The single \<^verbatim>\<open>databaseId\<close> and \<^verbatim>\<open>storageId\<close> that every
  call passes are left out.
\<close>

datatype collection = UserCollection | PostCollection | SavesCollection

text \<open>
  The queries of the SDK's \<^verbatim>\<open>Query\<close> builder that the file uses. A JavaScript number
  is modelled as an integer (fractions and NaN are left out). The cursor of
  \<^verbatim>\<open>Query.cursorAfter(pageParam.toString())\<close> is the string that JavaScript prints for
  the number; it stands here by the number itself, so that nothing is said about its
  digits.
\<close>

datatype query =
    OrderDesc string
  | Limit int
  | CursorAfter int
  | Equal string string
  | Search string string

text \<open>A \<^verbatim>\<open>File\<close> of the browser is its content; the bucket names it by a generated id.\<close>

type_synonym File = string

record Account =
  account_id :: string
  account_email :: string
  account_password :: string
  account_name :: string

text \<open>
  What the file throws and catches: \<^verbatim>\<open>throw Error\<close> throws the constructor
  \<^verbatim>\<open>Error\<close> itself, and a failed SDK call rejects with an \<^verbatim>\<open>AppwriteException\<close>.
\<close>

datatype exn = Error | AppwriteException

subsection \<open>The remote service\<close>

text \<open>
  Modelled from the spec: the SDK objects \<^verbatim>\<open>account\<close>, \<^verbatim>\<open>avatars\<close>, \<^verbatim>\<open>databases\<close>
  and \<^verbatim>\<open>storage\<close> that ./config exports are not among the sources; they are the
  Remote Service Facade of the specification (section 4.1): a document store, a blob
  store and a session service, each of whose operations may fail.

  Every SDK call the file makes, with the arguments it passes. The state keeps the
  calls issued so far, oldest first, so that a property can say which requests a
  workflow made and in which order.
\<close>

datatype call =
    AccountCreate string string string string
  | AccountCreateEmailPasswordSession string string
  | AccountGet
  | AccountDeleteSession string
  | AvatarsGetInitials string
  | CreateDocument collection string document
  | GetDocument collection string
  | ListDocuments collection "query list"
  | UpdateDocument collection string document
  | DeleteDocument collection string
  | CreateFile string File
  | GetFilePreview string
  | DeleteFile string

text \<open>
  How the service answers a call is not decided by the file: the service may reject
  the request (the promise rejects, the synchronous call throws), and the file also
  tests what a fulfilled call returned for truthiness (\<^verbatim>\<open>if (!newPost)\<close>), so a
  call may be fulfilled with a falsy value. \<open>replies\<close> holds the answers of the calls
  to come, one per call; when it is used up every call is accepted.
\<close>

datatype reply = Accept | Reject | Falsy

record world =
  files :: "string list"
  documents :: "((collection \<times> string) \<times> document) list"
  accounts :: "Account list"
  session :: "string option"
  evaluate :: "query list \<Rightarrow> document list \<Rightarrow> document list"
  calls :: "call list"
  console :: "exn list"
  replies :: "reply list"
  fresh_ids :: "string list"

text \<open>
  \<open>files\<close> are the ids of the blobs in the bucket, \<open>documents\<close> the stored documents
  under their collection and id, \<open>session\<close> the account id of the current session.
  \<open>evaluate\<close> is the store's query evaluation (filter, order, limit, cursor), which the
  file only invokes. \<open>console\<close> is what \<^verbatim>\<open>console.log\<close> printed. \<open>fresh_ids\<close> are the
  ids \<^verbatim>\<open>ID.unique()\<close> will produce.
\<close>

text \<open>
  A computation of the file: from the state to what it returned (\<open>Inr\<close>) or threw
  (\<open>Inl\<close>), and the new state. A value that may be falsy is an option: \<open>None\<close> is
  \<^verbatim>\<open>undefined\<close> (or any falsy value), \<open>Some v\<close> a truthy value.
\<close>

type_synonym 'a js = "world \<Rightarrow> (exn + 'a) \<times> world"

definition js_return :: "'a \<Rightarrow> 'a js" where
  "js_return v w = (Inr v, w)"

definition js_throw :: "exn \<Rightarrow> 'a js" where
  "js_throw e w = (Inl e, w)"

text \<open>Sequencing (\<^verbatim>\<open>const x = await m; k\<close>): an exception of \<open>m\<close> skips \<open>k\<close>.\<close>

definition js_await :: "'a js \<Rightarrow> ('a \<Rightarrow> 'b js) \<Rightarrow> 'b js" where
  "js_await m k w = (case m w of (Inl e, w') \<Rightarrow> (Inl e, w') | (Inr v, w') \<Rightarrow> k v w')"

text \<open>\<^verbatim>\<open>try { body } catch (error) { handler }\<close>.\<close>

definition try_catch :: "'a js \<Rightarrow> (exn \<Rightarrow> 'a js) \<Rightarrow> 'a js" where
  "try_catch body handler w =
     (case body w of (Inl error, w') \<Rightarrow> handler error w' | (Inr v, w') \<Rightarrow> (Inr v, w'))"

definition console_log :: "exn \<Rightarrow> unit js" where
  "console_log error w = (Inr (), w\<lparr>console := console w @ [error]\<rparr>)"

text \<open>
  The handler of every workflow but createUserAccount:
  \<^verbatim>\<open>catch (error) { console.log(error) }\<close>; the function then returns \<^verbatim>\<open>undefined\<close>.
\<close>

definition log_and_return_undefined :: "exn \<Rightarrow> 'a option js" where
  "log_and_return_undefined error = js_await (console_log error) (\<lambda>_. js_return None)"

text \<open>\<^verbatim>\<open>ID.unique()\<close>.\<close>

definition ID_unique :: "string js" where
  "ID_unique w =
     (case fresh_ids w of
        [] \<Rightarrow> (Inr ''unique()'', w)
      | i # ids \<Rightarrow> (Inr i, w\<lparr>fresh_ids := ids\<rparr>))"

text \<open>A call reaches the service: it is recorded, and the next reply is taken.\<close>

definition request :: "call \<Rightarrow> world \<Rightarrow> reply \<times> world" where
  "request c w =
     (case replies w of
        [] \<Rightarrow> (Accept, w\<lparr>calls := calls w @ [c]\<rparr>)
      | r # rs \<Rightarrow> (r, w\<lparr>calls := calls w @ [c], replies := rs\<rparr>))"

text \<open>
  JSON leaves out a field whose value is \<^verbatim>\<open>undefined\<close>, so such a field of the
  payload never reaches the store.
\<close>

definition defined_fields :: "document \<Rightarrow> document" where
  "defined_fields d = filter (\<lambda>(k, v). v \<noteq> JUndefined) d"

text \<open>An update replaces the fields the payload names and keeps the others.\<close>

definition merge_fields :: "document \<Rightarrow> document \<Rightarrow> document" where
  "merge_fields payload d =
     defined_fields payload @ filter (\<lambda>(k, v). map_of (defined_fields payload) k = None) d"

definition stored :: "world \<Rightarrow> collection \<Rightarrow> string \<Rightarrow> document option" where
  "stored w c i = map_of (documents w) (c, i)"

text \<open>
  Modelled from the spec: the operations of the Remote Service Facade (section 4.1).
  Each one records the call, takes the service's reply, and when the request is
  accepted acts on the state: a document or a blob that does not exist cannot be read,
  updated or deleted (the request is rejected), and an id in use cannot be given to a
  new one.
\<close>

definition answer :: "call \<Rightarrow> (world \<Rightarrow> (exn + 'a option) \<times> world) \<Rightarrow> 'a option js" where
  "answer c serve w =
     (case request c w of
        (Reject, w') \<Rightarrow> (Inl AppwriteException, w')
      | (Falsy, w') \<Rightarrow> (Inr None, w')
      | (Accept, w') \<Rightarrow> serve w')"

definition refuse :: "world \<Rightarrow> (exn + 'a option) \<times> world" where
  "refuse w = (Inl AppwriteException, w)"

definition storage_createFile :: "string \<Rightarrow> File option \<Rightarrow> string option js" where
  "storage_createFile fileId file =
     (case file of
        None \<Rightarrow> js_throw AppwriteException
      | Some f \<Rightarrow>
          answer (CreateFile fileId f)
            (\<lambda>w. if fileId \<in> set (files w) then refuse w
                 else (Inr (Some fileId), w\<lparr>files := files w @ [fileId]\<rparr>)))"

text \<open>
  The SDK returns the uploaded file's record; the file reads its \<^verbatim>\<open>$id\<close> only, which
  stands for the record here. Without a file (\<^verbatim>\<open>post.file[0]\<close> of an empty array) the
  SDK throws before any request.
\<close>

definition preview_url :: "string \<Rightarrow> string" where
  "preview_url fileId =
     ''/storage/files/'' @ fileId @ ''/preview?width=2000&height=2000&gravity=top&quality=100''"

definition storage_getFilePreview :: "string \<Rightarrow> string option js" where
  "storage_getFilePreview fileId =
     answer (GetFilePreview fileId) (\<lambda>w. (Inr (Some (preview_url fileId)), w))"

definition storage_deleteFile :: "string \<Rightarrow> unit option js" where
  "storage_deleteFile fileId =
     answer (DeleteFile fileId)
       (\<lambda>w. if fileId \<in> set (files w)
            then (Inr (Some ()), w\<lparr>files := removeAll fileId (files w)\<rparr>)
            else refuse w)"

definition databases_createDocument ::
  "collection \<Rightarrow> string \<Rightarrow> document \<Rightarrow> document option js" where
  "databases_createDocument c i payload =
     answer (CreateDocument c i payload)
       (\<lambda>w. case stored w c i of
              Some d \<Rightarrow> refuse w
            | None \<Rightarrow>
                (Inr (Some ((''$id'', JStr i) # defined_fields payload)),
                 w\<lparr>documents :=
                     documents w @ [((c, i), (''$id'', JStr i) # defined_fields payload)]\<rparr>))"

definition databases_getDocument :: "collection \<Rightarrow> string \<Rightarrow> document option js" where
  "databases_getDocument c i =
     answer (GetDocument c i)
       (\<lambda>w. case stored w c i of
              None \<Rightarrow> refuse w
            | Some d \<Rightarrow> (Inr (Some d), w))"

definition databases_listDocuments ::
  "collection \<Rightarrow> query list \<Rightarrow> document list option js" where
  "databases_listDocuments c queries =
     answer (ListDocuments c queries)
       (\<lambda>w. (Inr (Some (evaluate w queries
                          (map snd (filter (\<lambda>(k, d). fst k = c) (documents w))))), w))"

definition databases_updateDocument ::
  "collection \<Rightarrow> string \<Rightarrow> document \<Rightarrow> document option js" where
  "databases_updateDocument c i payload =
     answer (UpdateDocument c i payload)
       (\<lambda>w. case stored w c i of
              None \<Rightarrow> refuse w
            | Some d \<Rightarrow>
                (Inr (Some (merge_fields payload d)),
                 w\<lparr>documents :=
                     map (\<lambda>kd. if fst kd = (c, i) then (fst kd, merge_fields payload (snd kd))
                               else kd)
                       (documents w)\<rparr>))"

definition databases_deleteDocument :: "collection \<Rightarrow> string \<Rightarrow> unit option js" where
  "databases_deleteDocument c i =
     answer (DeleteDocument c i)
       (\<lambda>w. case stored w c i of
              None \<Rightarrow> refuse w
            | Some d \<Rightarrow>
                (Inr (Some ()), w\<lparr>documents := filter (\<lambda>kd. fst kd \<noteq> (c, i)) (documents w)\<rparr>))"

definition account_create ::
  "string \<Rightarrow> string \<Rightarrow> string \<Rightarrow> string \<Rightarrow> Account option js" where
  "account_create i email password name =
     answer (AccountCreate i email password name)
       (\<lambda>w. if list_ex (\<lambda>a. account_id a = i \<or> account_email a = email) (accounts w)
            then refuse w
            else (Inr (Some \<lparr>account_id = i, account_email = email,
                             account_password = password, account_name = name\<rparr>),
                  w\<lparr>accounts := accounts w @
                      [\<lparr>account_id = i, account_email = email,
                        account_password = password, account_name = name\<rparr>]\<rparr>))"

definition account_createEmailPasswordSession :: "string \<Rightarrow> string \<Rightarrow> string option js" where
  "account_createEmailPasswordSession email password =
     answer (AccountCreateEmailPasswordSession email password)
       (\<lambda>w. case find (\<lambda>a. account_email a = email \<and> account_password a = password)
                   (accounts w) of
              None \<Rightarrow> refuse w
            | Some a \<Rightarrow> (Inr (Some (account_id a)), w\<lparr>session := Some (account_id a)\<rparr>))"

definition account_get :: "Account option js" where
  "account_get =
     answer AccountGet
       (\<lambda>w. case session w of
              None \<Rightarrow> refuse w
            | Some i \<Rightarrow>
                (case find (\<lambda>a. account_id a = i) (accounts w) of
                   None \<Rightarrow> refuse w
                 | Some a \<Rightarrow> (Inr (Some a), w)))"

definition account_deleteSession :: "string \<Rightarrow> unit option js" where
  "account_deleteSession sessionId =
     answer (AccountDeleteSession sessionId)
       (\<lambda>w. case session w of
              None \<Rightarrow> refuse w
            | Some i \<Rightarrow> (Inr (Some ()), w\<lparr>session := None\<rparr>))"

definition avatars_getInitials :: "string \<Rightarrow> string option js" where
  "avatars_getInitials name =
     answer (AvatarsGetInitials name) (\<lambda>w. (Inr (Some (''/avatars/initials?name='' @ name)), w))"

subsection \<open>The inputs of the workflows\<close>

text \<open>
  Modelled from the spec: the types \<^verbatim>\<open>INewUser\<close>, \<^verbatim>\<open>INewPost\<close>, \<^verbatim>\<open>IUpdatePost\<close> and
  \<^verbatim>\<open>IUpdateUser\<close> of @/types are not among the sources. The records hold the inputs
  of sections 4.2 to 4.4, which are the fields the functions read: the image id and
  URL of an update are those of the existing image, \<^verbatim>\<open>file\<close> is the list of new
  images (empty when there is none), and \<^verbatim>\<open>tags\<close> and \<^verbatim>\<open>location\<close> are optional
  (the functions read \<^verbatim>\<open>post.tags?.\<close>). The field names carry a prefix, since two
  records cannot share a field name.
\<close>

record INewUser =
  nu_name :: string
  nu_email :: string
  nu_username :: string
  nu_password :: string

record INewPost =
  np_userId :: string
  np_caption :: string
  np_file :: "File list"
  np_location :: "string option"
  np_tags :: "string option"

record IUpdatePost =
  up_postId :: string
  up_caption :: string
  up_imageId :: string
  up_imageUrl :: string
  up_file :: "File list"
  up_location :: "string option"
  up_tags :: "string option"

record IUpdateUser =
  uu_userId :: string
  uu_name :: string
  uu_bio :: string
  uu_imageId :: string
  uu_imageUrl :: string
  uu_file :: "File list"

text \<open>\<^verbatim>\<open>xs[0]\<close>: the first element, \<^verbatim>\<open>undefined\<close> for the empty array.\<close>

definition first :: "'a list \<Rightarrow> 'a option" where
  "first xs = (case xs of [] \<Rightarrow> None | x # _ \<Rightarrow> Some x)"

text \<open>\<^verbatim>\<open>if (c) { await m; }\<close>\<close>

definition js_when :: "bool \<Rightarrow> 'a js \<Rightarrow> unit js" where
  "js_when c m = (if c then js_await m (\<lambda>_. js_return ()) else js_return ())"

subsection \<open>The workflows of api.ts\<close>

text \<open>Lines 147-159, 162-178 and 181-189: the three helpers of the blob store.\<close>

definition uploadFile :: "File option \<Rightarrow> string option js" where
  "uploadFile file =
     try_catch
       (js_await ID_unique (\<lambda>i.
        js_await (storage_createFile i file) (\<lambda>uploadedFile.
        js_return uploadedFile)))
       log_and_return_undefined"

definition getFilePreview :: "string \<Rightarrow> string option js" where
  "getFilePreview fileId =
     try_catch
       (js_await (storage_getFilePreview fileId) (\<lambda>fileUrl.
        case fileUrl of
          None \<Rightarrow> js_throw Error
        | Some url \<Rightarrow> js_return (Some url)))
       log_and_return_undefined"

definition deleteFile :: "string \<Rightarrow> string option js" where
  "deleteFile fileId =
     try_catch
       (js_await (storage_deleteFile fileId) (\<lambda>_.
        js_return (Some ''ok'')))
       log_and_return_undefined"

text \<open>Lines 36-55.\<close>

definition saveUserToDB :: "document \<Rightarrow> document option js" where
  "saveUserToDB user =
     try_catch
       (js_await ID_unique (\<lambda>i.
        js_await (databases_createDocument UserCollection i user) (\<lambda>newUser.
        js_return newUser)))
       log_and_return_undefined"

text \<open>
  Lines 6-33. The handler of createUserAccount returns the error it caught, so the
  function returns either what saveUserToDB returned or an exception as a value.
\<close>

datatype created = Caught exn | NewUser "document option"

definition createUserAccount :: "INewUser \<Rightarrow> created js" where
  "createUserAccount user =
     try_catch
       (js_await ID_unique (\<lambda>i.
        js_await (account_create i (nu_email user) (nu_password user) (nu_name user))
          (\<lambda>newAccount.
        case newAccount of
          None \<Rightarrow> js_throw Error
        | Some acc \<Rightarrow>
            js_await (avatars_getInitials (nu_name user)) (\<lambda>avatarUrl.
            js_await (saveUserToDB
                        [(''accountId'', JStr (account_id acc)),
                         (''name'', JStr (account_name acc)),
                         (''email'', JStr (account_email acc)),
                         (''username'', JStr (nu_username user)),
                         (''imageUrl'', js_opt avatarUrl)]) (\<lambda>newUser.
            js_return (NewUser newUser))))))
       (\<lambda>error. js_await (console_log error) (\<lambda>_. js_return (Caught error)))"

text \<open>Lines 58-69, 72-92 and 95-103.\<close>

definition signInAccount :: "string \<Rightarrow> string \<Rightarrow> string option js" where
  "signInAccount email password =
     try_catch
       (js_await (account_createEmailPasswordSession email password) (\<lambda>session.
        js_return session))
       log_and_return_undefined"

definition getCurrentUser :: "document option js" where
  "getCurrentUser =
     try_catch
       (js_await account_get (\<lambda>currentAccount.
        case currentAccount of
          None \<Rightarrow> js_throw Error
        | Some acc \<Rightarrow>
            js_await (databases_listDocuments UserCollection
                        [Equal ''accountId'' (account_id acc)]) (\<lambda>currentUser.
            case currentUser of
              None \<Rightarrow> js_throw Error
            | Some docs \<Rightarrow> js_return (first docs))))
       log_and_return_undefined"

definition signOutAccount :: "unit option js" where
  "signOutAccount =
     try_catch
       (js_await (account_deleteSession ''current'') (\<lambda>session.
        js_return session))
       log_and_return_undefined"

text \<open>Lines 106-144.\<close>

definition createPost :: "INewPost \<Rightarrow> document option js" where
  "createPost post =
     try_catch
       (js_await (uploadFile (first (np_file post))) (\<lambda>uploadedFile.
        case uploadedFile of
          None \<Rightarrow> js_throw Error
        | Some uploadedFile_id \<Rightarrow>
            js_await (getFilePreview uploadedFile_id) (\<lambda>fileUrl.
            case fileUrl of
              None \<Rightarrow> js_await (deleteFile uploadedFile_id) (\<lambda>_. js_throw Error)
            | Some url \<Rightarrow>
                js_await ID_unique (\<lambda>i.
                js_await (databases_createDocument PostCollection i
                            [(''creator'', JStr (np_userId post)),
                             (''caption'', JStr (np_caption post)),
                             (''imageUrl'', JStr url),
                             (''imageId'', JStr uploadedFile_id),
                             (''location'', js_opt (np_location post)),
                             (''tags'', JList (convert_tags (np_tags post)))]) (\<lambda>newPost.
                case newPost of
                  None \<Rightarrow> js_await (deleteFile uploadedFile_id) (\<lambda>_. js_throw Error)
                | Some d \<Rightarrow> js_return (Some d))))))
       log_and_return_undefined"

text \<open>Lines 192-207, 210-227 and 230-244.\<close>

definition likePost :: "string \<Rightarrow> string list \<Rightarrow> document option js" where
  "likePost postId likesArray =
     try_catch
       (js_await (databases_updateDocument PostCollection postId
                    [(''likes'', JList likesArray)]) (\<lambda>updatedPost.
        case updatedPost of
          None \<Rightarrow> js_throw Error
        | Some d \<Rightarrow> js_return (Some d)))
       log_and_return_undefined"

definition savePost :: "string \<Rightarrow> string \<Rightarrow> document option js" where
  "savePost userId postId =
     try_catch
       (js_await ID_unique (\<lambda>i.
        js_await (databases_createDocument SavesCollection i
                    [(''user'', JStr userId), (''post'', JStr postId)]) (\<lambda>updatedPost.
        case updatedPost of
          None \<Rightarrow> js_throw Error
        | Some d \<Rightarrow> js_return (Some d))))
       log_and_return_undefined"

definition deleteSavedPost :: "string \<Rightarrow> string option js" where
  "deleteSavedPost savedRecordId =
     try_catch
       (js_await (databases_deleteDocument SavesCollection savedRecordId) (\<lambda>statusCode.
        case statusCode of
          None \<Rightarrow> js_throw Error
        | Some _ \<Rightarrow> js_return (Some ''Ok'')))
       log_and_return_undefined"

text \<open>
  Lines 247-264. The test of \<^verbatim>\<open>postId\<close> stands before the \<^verbatim>\<open>try\<close>: its exception
  is not caught. \<^verbatim>\<open>!postId\<close> holds for \<^verbatim>\<open>undefined\<close> and for the empty string.
\<close>

definition getPostById :: "string option \<Rightarrow> document option js" where
  "getPostById postId =
     (case postId of
        None \<Rightarrow> js_throw Error
      | Some i \<Rightarrow>
          if i = [] then js_throw Error
          else
            try_catch
              (js_await (databases_getDocument PostCollection i) (\<lambda>post.
               case post of
                 None \<Rightarrow> js_throw Error
               | Some d \<Rightarrow> js_return (Some d)))
              log_and_return_undefined)"

text \<open>
  Lines 267-316. \<open>image\<close> is the pair (imageUrl, imageId); the block under
  \<^verbatim>\<open>if (hasFileToUpdate)\<close> replaces it.
\<close>

definition updatePost :: "IUpdatePost \<Rightarrow> document option js" where
  "updatePost post =
     (let hasFileToUpdate = (length (up_file post) > 0) in
      try_catch
        (js_await
           (if hasFileToUpdate then
              js_await (uploadFile (first (up_file post))) (\<lambda>uploadedFile.
              case uploadedFile of
                None \<Rightarrow> js_throw Error
              | Some uploadedFile_id \<Rightarrow>
                  js_await (getFilePreview uploadedFile_id) (\<lambda>fileUrl.
                  case fileUrl of
                    None \<Rightarrow> js_await (deleteFile uploadedFile_id) (\<lambda>_. js_throw Error)
                  | Some url \<Rightarrow> js_return (url, uploadedFile_id)))
            else js_return (up_imageUrl post, up_imageId post)) (\<lambda>image.
         js_await (databases_updateDocument PostCollection (up_postId post)
                     [(''caption'', JStr (up_caption post)),
                      (''imageUrl'', JStr (fst image)),
                      (''imageId'', JStr (snd image)),
                      (''location'', js_opt (up_location post)),
                      (''tags'', JList (convert_tags (up_tags post)))]) (\<lambda>updatedPost.
         case updatedPost of
           None \<Rightarrow>
             js_await (js_when hasFileToUpdate (deleteFile (snd image))) (\<lambda>_.
             js_throw Error)
         | Some d \<Rightarrow>
             js_await (js_when hasFileToUpdate (deleteFile (up_imageId post))) (\<lambda>_.
             js_return (Some d)))))
        log_and_return_undefined)"

text \<open>
  Lines 319-337. \<^verbatim>\<open>if (!postId || !imageId) return;\<close> stands before the \<^verbatim>\<open>try\<close>.
\<close>

definition deletePost :: "string option \<Rightarrow> string option \<Rightarrow> string option js" where
  "deletePost postId imageId =
     (case (postId, imageId) of
        (Some p, Some i) \<Rightarrow>
          if p = [] \<or> i = [] then js_return None
          else
            try_catch
              (js_await (databases_deleteDocument PostCollection p) (\<lambda>statusCode.
               case statusCode of
                 None \<Rightarrow> js_throw Error
               | Some _ \<Rightarrow>
                   js_await (deleteFile i) (\<lambda>_.
                   js_return (Some ''Ok''))))
              log_and_return_undefined
      | _ \<Rightarrow> js_return None)"

text \<open>
  Lines 340-361 and 364-379. \<^verbatim>\<open>if (pageParam)\<close> holds for every number but 0 (and
  NaN, which the integers leave out).
\<close>

definition getInfinitePosts :: "int \<Rightarrow> document list option js" where
  "getInfinitePosts pageParam =
     (let queries = [OrderDesc ''$updatedAt'', Limit 9];
          queries = (if pageParam = 0 then queries
                     else queries @ [CursorAfter pageParam]) in
      try_catch
        (js_await (databases_listDocuments PostCollection queries) (\<lambda>posts.
         case posts of
           None \<Rightarrow> js_throw Error
         | Some ds \<Rightarrow> js_return (Some ds)))
        log_and_return_undefined)"

definition searchPosts :: "string \<Rightarrow> document list option js" where
  "searchPosts searchTerm =
     try_catch
       (js_await (databases_listDocuments PostCollection
                    [Search ''caption'' searchTerm]) (\<lambda>posts.
        case posts of
          None \<Rightarrow> js_throw Error
        | Some ds \<Rightarrow> js_return (Some ds)))
       log_and_return_undefined"

text \<open>
  Lines 382-401. \<^verbatim>\<open>limit\<close> is optional; \<^verbatim>\<open>if (limit)\<close> holds for a number other
  than 0.
\<close>

definition getUsers :: "int option \<Rightarrow> document list option js" where
  "getUsers limit =
     (let queries = [OrderDesc ''$createdAt''];
          queries = (case limit of
                       None \<Rightarrow> queries
                     | Some n \<Rightarrow> if n = 0 then queries else queries @ [Limit n]) in
      try_catch
        (js_await (databases_listDocuments UserCollection queries) (\<lambda>users.
         case users of
           None \<Rightarrow> js_throw Error
         | Some ds \<Rightarrow> js_return (Some ds)))
        log_and_return_undefined)"

text \<open>
  Lines 404-449. The payload names the biography \<^verbatim>\<open>bi0\<close>, as line 430 does. The old
  blob is deleted under \<^verbatim>\<open>user.imageId && hasFileToUpdate\<close>; a string is truthy
  when it is not empty.
\<close>

definition updateUser :: "IUpdateUser \<Rightarrow> document option js" where
  "updateUser user =
     (let hasFileToUpdate = (length (uu_file user) > 0) in
      try_catch
        (js_await
           (if hasFileToUpdate then
              js_await (uploadFile (first (uu_file user))) (\<lambda>uploadedFile.
              case uploadedFile of
                None \<Rightarrow> js_throw Error
              | Some uploadedFile_id \<Rightarrow>
                  js_await (getFilePreview uploadedFile_id) (\<lambda>fileUrl.
                  case fileUrl of
                    None \<Rightarrow> js_await (deleteFile uploadedFile_id) (\<lambda>_. js_throw Error)
                  | Some url \<Rightarrow> js_return (url, uploadedFile_id)))
            else js_return (uu_imageUrl user, uu_imageId user)) (\<lambda>image.
         js_await (databases_updateDocument UserCollection (uu_userId user)
                     [(''name'', JStr (uu_name user)),
                      (''bi0'', JStr (uu_bio user)),
                      (''imageUrl'', JStr (fst image)),
                      (''imageId'', JStr (snd image))]) (\<lambda>updatedUser.
         case updatedUser of
           None \<Rightarrow>
             js_await (js_when hasFileToUpdate (deleteFile (snd image))) (\<lambda>_.
             js_throw Error)
         | Some d \<Rightarrow>
             js_await (js_when (uu_imageId user \<noteq> [] \<and> hasFileToUpdate)
                         (deleteFile (uu_imageId user))) (\<lambda>_.
             js_return (Some d)))))
        log_and_return_undefined)"

text \<open>Lines 452-466, 469-483, 486-503 and 506-515.\<close>

definition getUserById :: "string \<Rightarrow> document option js" where
  "getUserById userId =
     try_catch
       (js_await (databases_getDocument UserCollection userId) (\<lambda>user.
        case user of
          None \<Rightarrow> js_throw Error
        | Some d \<Rightarrow> js_return (Some d)))
       log_and_return_undefined"

definition getRecentPosts :: "document list option js" where
  "getRecentPosts =
     try_catch
       (js_await (databases_listDocuments PostCollection
                    [OrderDesc ''$createdAt'', Limit 20]) (\<lambda>posts.
        case posts of
          None \<Rightarrow> js_throw Error
        | Some ds \<Rightarrow> js_return (Some ds)))
       log_and_return_undefined"

definition getUserPosts :: "string option \<Rightarrow> document list option js" where
  "getUserPosts userId =
     (case userId of
        None \<Rightarrow> js_return None
      | Some u \<Rightarrow>
          if u = [] then js_return None
          else
            try_catch
              (js_await (databases_listDocuments PostCollection
                           [Equal ''creator'' u, OrderDesc ''$createdAt'']) (\<lambda>post.
               case post of
                 None \<Rightarrow> js_throw Error
               | Some ds \<Rightarrow> js_return (Some ds)))
              log_and_return_undefined)"

definition getAccount :: "Account option js" where
  "getAccount =
     try_catch
       (js_await account_get (\<lambda>currentAccount.
        js_return currentAccount))
       log_and_return_undefined"

subsection \<open>Notions the properties are stated with\<close>

text \<open>
  The reply the \<open>n\<close>-th call from now on will get, and the id the next \<^verbatim>\<open>ID.unique()\<close>
  will produce.
\<close>

definition reply_at :: "world \<Rightarrow> nat \<Rightarrow> reply" where
  "reply_at w n = (case drop n (replies w) of [] \<Rightarrow> Accept | r # _ \<Rightarrow> r)"

definition next_id :: "world \<Rightarrow> string" where
  "next_id w = (case fresh_ids w of [] \<Rightarrow> ''unique()'' | i # _ \<Rightarrow> i)"

text \<open>The state once a call has been recorded and its reply taken.\<close>

definition advance :: "call \<Rightarrow> world \<Rightarrow> world" where
  "advance c w = w\<lparr>calls := calls w @ [c], replies := tl (replies w)\<rparr>"

text \<open>
  The image reference of a document (its \<^verbatim>\<open>imageUrl\<close> and \<^verbatim>\<open>imageId\<close>), and the
  documents of the store whose \<^verbatim>\<open>imageId\<close> is a given blob id.
\<close>

definition image_ref :: "document \<Rightarrow> jsval option \<times> jsval option" where
  "image_ref d = (map_of d ''imageUrl'', map_of d ''imageId'')"

definition referrers :: "world \<Rightarrow> string \<Rightarrow> (collection \<times> string) list" where
  "referrers w b =
     map fst (filter (\<lambda>(k, d). map_of d ''imageId'' = Some (JStr b)) (documents w))"

text \<open>A computation throws to its caller (the promise of an async function rejects).\<close>

definition throws :: "'a js \<Rightarrow> world \<Rightarrow> bool" where
  "throws m w = isl (fst (m w))"

text \<open>
  A workflow reports success: it returns a truthy value. The other outcomes are
  \<^verbatim>\<open>undefined\<close> (\<open>Inr None\<close>) and an exception thrown to the caller. createUserAccount
  reports success when it returns a user document; its other outcomes are a caught
  exception, \<^verbatim>\<open>undefined\<close> from saveUserToDB, and an exception thrown to the caller.
\<close>

definition succeeds :: "'a option js \<Rightarrow> world \<Rightarrow> bool" where
  "succeeds m w = (case fst (m w) of Inr (Some v) \<Rightarrow> True | _ \<Rightarrow> False)"

definition signed_up :: "created js \<Rightarrow> world \<Rightarrow> bool" where
  "signed_up m w = (case fst (m w) of Inr (NewUser (Some d)) \<Rightarrow> True | _ \<Rightarrow> False)"

text \<open>
  The id the second \<^verbatim>\<open>ID.unique()\<close> from now on will produce, and the account of the
  current session, if there is one.
\<close>

definition second_id :: "world \<Rightarrow> string" where
  "second_id w = next_id (w\<lparr>fresh_ids := tl (fresh_ids w)\<rparr>)"

definition current_account :: "world \<Rightarrow> Account option" where
  "current_account w =
     (case session w of
        None \<Rightarrow> None
      | Some i \<Rightarrow> find (\<lambda>a. account_id a = i) (accounts w))"

subsection \<open>A small store and inputs to run the workflows on\<close>

definition example_world :: world where
  "example_world =
     \<lparr>files = [''b1'', ''b9''],
      documents =
        [((PostCollection, ''p1''),
          [(''$id'', JStr ''p1''), (''creator'', JStr ''u1''), (''caption'', JStr ''Hello''),
           (''imageUrl'', JStr ''url1''), (''imageId'', JStr ''b1''),
           (''location'', JStr ''Oslo''), (''tags'', JList [])]),
         ((UserCollection, ''u1''),
          [(''$id'', JStr ''u1''), (''name'', JStr ''Ann''), (''bio'', JStr ''old bio''),
           (''imageUrl'', JStr ''url9''), (''imageId'', JStr ''b9'')])],
      accounts = [],
      session = None,
      evaluate = (\<lambda>queries ds. ds),
      calls = [],
      console = [],
      replies = [],
      fresh_ids = [''b2'', ''p2'']\<rparr>"

definition example_new_post :: INewPost where
  "example_new_post =
     \<lparr>np_userId = ''u1'', np_caption = ''Hello'', np_file = [''bytes''],
      np_location = Some ''Oslo'', np_tags = None\<rparr>"

definition example_update_post :: IUpdatePost where
  "example_update_post =
     \<lparr>up_postId = ''p1'', up_caption = ''Hi'', up_imageId = ''b1'', up_imageUrl = ''url1'',
      up_file = [''bytes''], up_location = Some ''Paris'',
      up_tags = Some ''Art, Expression, Learn''\<rparr>"

definition example_update_user :: IUpdateUser where
  "example_update_user =
     \<lparr>uu_userId = ''u1'', uu_name = ''Ann'', uu_bio = ''new bio'', uu_imageId = ''b9'',
      uu_imageUrl = ''url9'', uu_file = [''bytes'']\<rparr>"

definition example_new_user :: INewUser where
  "example_new_user =
     \<lparr>nu_name = ''Bob'', nu_email = ''bob@example.org'', nu_username = ''bob'',
      nu_password = ''12345678''\<rparr>"

section \<open>Properties\<close>

subsection \<open>Facts about the tag conversion\<close>

lemma split_comma_not_Nil: "split_comma s \<noteq> []"
  by (induction s) (auto split: list.splits)

lemma join_split_comma: "join_comma (split_comma s) = s"
proof (induction s)
  case Nil
  show ?case by simp
next
  case (Cons c cs)
  obtain t ts where sp: "split_comma cs = t # ts"
    using split_comma_not_Nil [of cs] by (cases "split_comma cs") auto
  show ?case
  proof (cases "c = CHR '',''")
    case True
    with Cons sp show ?thesis by simp
  next
    case False
    with Cons sp show ?thesis by (cases ts) auto
  qed
qed

lemma replace_spaces_idem: "replace_spaces (replace_spaces s) = replace_spaces s"
  by (simp add: replace_spaces_def)

lemma replace_spaces_no_space: "CHR '' '' \<notin> set (replace_spaces s)"
  by (simp add: replace_spaces_def)

lemma set_concat_split_comma: "set (concat (split_comma s)) = set s - {CHR '',''}"
proof (induction s)
  case Nil
  show ?case by simp
next
  case (Cons c cs)
  obtain t ts where sp: "split_comma cs = t # ts"
    using split_comma_not_Nil [of cs] by (cases "split_comma cs") auto
  with Cons show ?case by auto
qed

lemma length_split_comma: "length (split_comma s) = Suc (count_list s (CHR '',''))"
proof (induction s)
  case Nil
  show ?case by simp
next
  case (Cons c cs)
  obtain t ts where sp: "split_comma cs = t # ts"
    using split_comma_not_Nil [of cs] by (cases "split_comma cs") auto
  with Cons show ?case by auto
qed

lemma convert_tags_pieces:
  "t \<in> set (convert_tags (Some s)) \<Longrightarrow> CHR '','' \<notin> set t \<and> CHR '' '' \<notin> set t"
proof -
  assume "t \<in> set (convert_tags (Some s))"
  then have "set t \<subseteq> set (concat (split_comma (replace_spaces s)))"
    by (auto simp: convert_tags_def)
  then have "set t \<subseteq> set (replace_spaces s) - {CHR '',''}"
    by (simp only: set_concat_split_comma)
  then show ?thesis
    using replace_spaces_no_space [of s] by auto
qed

subsection \<open>Facts about the service\<close>

text \<open>
  A call takes the next reply and records itself; the other components of the state
  are not touched. These equations let a workflow be run symbolically: its outcome is
  a case distinction over the replies \<open>reply_at w 0\<close>, \<open>reply_at w 1\<close>, ... of the
  calls it issues.
\<close>

lemma request_eq: "request c w = (reply_at w 0, advance c w)"
  by (cases "replies w") (simp_all add: request_def reply_at_def advance_def)

lemma reply_at_advance [simp]: "reply_at (advance c w) n = reply_at w (n + 1)"
  by (cases "replies w") (simp_all add: reply_at_def advance_def)

lemma advance_fields [simp]:
  "calls (advance c w) = calls w @ [c]"
  "files (advance c w) = files w"
  "documents (advance c w) = documents w"
  "accounts (advance c w) = accounts w"
  "session (advance c w) = session w"
  "console (advance c w) = console w"
  "fresh_ids (advance c w) = fresh_ids w"
  "evaluate (advance c w) = evaluate w"
  by (simp_all add: advance_def)

lemma stored_advance [simp]: "stored (advance c w) = stored w"
  by (simp add: stored_def fun_eq_iff)

lemma answer_eq:
  "answer c serve w =
     (case reply_at w 0 of
        Accept \<Rightarrow> serve (advance c w)
      | Reject \<Rightarrow> (Inl AppwriteException, advance c w)
      | Falsy \<Rightarrow> (Inr None, advance c w))"
  by (simp add: answer_def request_eq split: reply.splits)

lemma ID_unique_eq: "ID_unique w = (Inr (next_id w), w\<lparr>fresh_ids := tl (fresh_ids w)\<rparr>)"
  by (cases "fresh_ids w") (simp_all add: ID_unique_def next_id_def)

lemma reply_at_fresh_ids [simp]: "reply_at (w\<lparr>fresh_ids := x\<rparr>) n = reply_at w n"
  by (simp add: reply_at_def)

lemma reply_at_console [simp]: "reply_at (w\<lparr>console := x\<rparr>) n = reply_at w n"
  by (simp add: reply_at_def)

lemma advance_fresh_ids [simp]:
  "advance c (w\<lparr>fresh_ids := x\<rparr>) = (advance c w)\<lparr>fresh_ids := x\<rparr>"
  by (simp add: advance_def)

lemma reply_at_update [simp]:
  "reply_at (w\<lparr>files := fs\<rparr>) n = reply_at w n"
  "reply_at (w\<lparr>documents := ds\<rparr>) n = reply_at w n"
  "reply_at (w\<lparr>accounts := as\<rparr>) n = reply_at w n"
  "reply_at (w\<lparr>session := s\<rparr>) n = reply_at w n"
  "reply_at (w\<lparr>calls := cs\<rparr>) n = reply_at w n"
  by (simp_all add: reply_at_def)

lemma stored_update [simp]:
  "stored (w\<lparr>files := fs\<rparr>) = stored w"
  "stored (w\<lparr>fresh_ids := ids\<rparr>) = stored w"
  "stored (w\<lparr>console := es\<rparr>) = stored w"
  "stored (w\<lparr>accounts := as\<rparr>) = stored w"
  "stored (w\<lparr>session := s\<rparr>) = stored w"
  "stored (w\<lparr>calls := cs\<rparr>) = stored w"
  by (simp_all add: stored_def fun_eq_iff)

lemma advance_update [simp]:
  "advance c (w\<lparr>files := fs\<rparr>) = (advance c w)\<lparr>files := fs\<rparr>"
  "advance c (w\<lparr>documents := ds\<rparr>) = (advance c w)\<lparr>documents := ds\<rparr>"
  "advance c (w\<lparr>console := es\<rparr>) = (advance c w)\<lparr>console := es\<rparr>"
  "advance c (w\<lparr>accounts := as\<rparr>) = (advance c w)\<lparr>accounts := as\<rparr>"
  "advance c (w\<lparr>session := s\<rparr>) = (advance c w)\<lparr>session := s\<rparr>"
  by (simp_all add: advance_def)

lemma next_id_advance [simp]: "next_id (advance c w) = next_id w"
  by (simp add: next_id_def)

lemma next_id_update [simp]:
  "next_id (w\<lparr>files := fs\<rparr>) = next_id w"
  "next_id (w\<lparr>documents := ds\<rparr>) = next_id w"
  "next_id (w\<lparr>accounts := as\<rparr>) = next_id w"
  "next_id (w\<lparr>session := s\<rparr>) = next_id w"
  "next_id (w\<lparr>console := es\<rparr>) = next_id w"
  "next_id (w\<lparr>calls := cs\<rparr>) = next_id w"
  by (simp_all add: next_id_def)

text \<open>The id that the second \<^verbatim>\<open>ID.unique()\<close> produces is not touched by a call.\<close>

lemma second_id_eq:
  "next_id (v\<lparr>fresh_ids := tl (fresh_ids w)\<rparr>) = second_id w"
  "second_id (advance c w) = second_id w"
  "second_id (w\<lparr>files := fs\<rparr>) = second_id w"
  "second_id (w\<lparr>documents := ds\<rparr>) = second_id w"
  "second_id (w\<lparr>accounts := as\<rparr>) = second_id w"
  "second_id (w\<lparr>console := es\<rparr>) = second_id w"
  by (simp_all add: second_id_def next_id_def advance_def)

lemma map_of_merge_fields:
  "map_of (merge_fields payload d) k =
     (case map_of (defined_fields payload) k of Some v \<Rightarrow> Some v | None \<Rightarrow> map_of d k)"
  by (induction d) (auto simp: merge_fields_def map_add_def split: option.splits)

lemma map_of_filter_key: "map_of (filter (\<lambda>kd. fst kd \<noteq> key) xs) key = None"
  by (induction xs) auto

lemma map_of_map_key:
  "map_of (map (\<lambda>kd. if fst kd = key then (fst kd, f (snd kd)) else kd) xs) k' =
     (if k' = key then map_option f (map_of xs k') else map_of xs k')"
  by (induction xs) auto

lemma image_ref_merge_fields:
  "map_of (defined_fields payload) ''imageUrl'' = Some u \<Longrightarrow>
   map_of (defined_fields payload) ''imageId'' = Some i \<Longrightarrow>
   image_ref (merge_fields payload d) = (Some u, Some i)"
  by (simp add: image_ref_def map_of_merge_fields)

text \<open>
  The definitions to unfold: \<open>js_defs\<close> for the control flow, \<open>sdk_defs\<close> for the SDK
  in terms of \<open>reply_at\<close> and \<open>advance\<close>, \<open>helper_defs\<close> for the three helpers of the
  blob store, and \<open>run_defs\<close> with \<open>example_defs\<close> to evaluate a workflow on the example
  store.
\<close>

lemmas js_defs = try_catch_def js_await_def js_return_def js_throw_def
  log_and_return_undefined_def console_log_def js_when_def first_def Let_def

lemmas sdk_defs = storage_createFile_def storage_getFilePreview_def storage_deleteFile_def
  databases_updateDocument_def databases_createDocument_def databases_deleteDocument_def
  databases_getDocument_def databases_listDocuments_def
  account_create_def account_createEmailPasswordSession_def account_get_def
  account_deleteSession_def avatars_getInitials_def answer_eq refuse_def ID_unique_eq

lemmas helper_defs = uploadFile_def getFilePreview_def deleteFile_def

lemmas example_defs = example_world_def example_new_post_def example_update_post_def
  example_update_user_def example_new_user_def

lemmas run_defs = js_defs helper_defs storage_createFile_def storage_getFilePreview_def
  storage_deleteFile_def databases_updateDocument_def databases_createDocument_def
  databases_deleteDocument_def databases_getDocument_def databases_listDocuments_def
  account_create_def account_createEmailPasswordSession_def account_get_def
  account_deleteSession_def avatars_getInitials_def answer_def request_def refuse_def
  ID_unique_def stored_def merge_fields_def defined_fields_def preview_url_def
  convert_tags_def replace_spaces_def js_opt_def saveUserToDB_def

subsection \<open>The tag conversion is idempotent on strings\<close>

text \<open>
  C9: converting a tags string, joining the tags with commas and converting the joined
  string again gives the same tags, for every string. The example of the
  specification: ``Art, Expression, Learn'' converts to the three tags Art, Expression
  and Learn, these join to ``Art,Expression,Learn'', and that string converts to the
  same three tags.
\<close>

theorem convert_tags_idempotent:
  "convert_tags (Some (join_comma (convert_tags (Some s)))) = convert_tags (Some s)
   \<and> convert_tags (Some ''Art, Expression, Learn'') = [''Art'', ''Expression'', ''Learn'']
   \<and> join_comma [''Art'', ''Expression'', ''Learn''] = ''Art,Expression,Learn''
   \<and> convert_tags (Some ''Art,Expression,Learn'') = [''Art'', ''Expression'', ''Learn'']"
  by (simp add: convert_tags_def join_split_comma replace_spaces_idem)
     (simp add: replace_spaces_def)

subsection \<open>What the tag conversion removes and where it splits\<close>

lemma createPost_tags:
  "fst (createPost post w) = Inr (Some d) \<Longrightarrow>
     map_of d ''tags'' = Some (JList (convert_tags (np_tags post)))"
  by (auto simp add: createPost_def js_defs sdk_defs helper_defs defined_fields_def js_opt_def
      split: reply.splits option.splits if_splits list.splits)

lemma updatePost_tags:
  "fst (updatePost post w) = Inr (Some d) \<Longrightarrow>
     map_of d ''tags'' = Some (JList (convert_tags (up_tags post)))"
  by (auto simp add: updatePost_def js_defs sdk_defs helper_defs defined_fields_def
        map_of_merge_fields
      split: reply.splits option.splits if_splits list.splits)

text \<open>
  The empty string does not convert to the empty list but to the list of one empty
  tag, and a tab is not removed: only the space character is. A post created with the
  empty string as its tags has that list of one empty tag as its tags.
\<close>

theorem convert_tags_empty_string:
  "convert_tags (Some []) = [[]]
   \<and> convert_tags (Some []) \<noteq> []
   \<and> convert_tags (Some [CHR ''a'', CHR 0x09, CHR ''b'']) = [[CHR ''a'', CHR 0x09, CHR ''b'']]
   \<and> fst (createPost (example_new_post\<lparr>np_tags := Some []\<rparr>) example_world) =
       Inr (Some [(''$id'', JStr ''p2''), (''creator'', JStr ''u1''),
                  (''caption'', JStr ''Hello''), (''imageUrl'', JStr (preview_url ''b2'')),
                  (''imageId'', JStr ''b2''), (''location'', JStr ''Oslo''),
                  (''tags'', JList [[]])])"
  by (simp add: createPost_def example_defs run_defs)

text \<open>
  C3, as the code has it: the conversion of a tags string removes every space
  character and splits at the commas: the tags joined with commas are the string
  without its spaces, and no tag contains a comma or a space. A tags field that is
  absent (\<^verbatim>\<open>undefined\<close>) converts to the empty list. The document that createPost
  returns holds the converted tags of the input in its field \<^verbatim>\<open>tags\<close>, and so does
  the document that updatePost returns; so a post created with the tags absent has
  the empty list as its tags.
\<close>

theorem convert_tags_spaces_and_commas:
  "convert_tags None = []
   \<and> join_comma (convert_tags (Some s)) = filter (\<lambda>c. c \<noteq> CHR '' '') s
   \<and> (\<forall>t \<in> set (convert_tags (Some s)). CHR '','' \<notin> set t \<and> CHR '' '' \<notin> set t)
   \<and> (fst (createPost post w) = Inr (Some d) \<longrightarrow>
        map_of d ''tags'' = Some (JList (convert_tags (np_tags post))))
   \<and> (fst (updatePost upost w) = Inr (Some d') \<longrightarrow>
        map_of d' ''tags'' = Some (JList (convert_tags (up_tags upost))))"
  using convert_tags_pieces [of _ s] createPost_tags [of post w d] updatePost_tags [of upost w d']
  by (simp add: convert_tags_def join_split_comma replace_spaces_def)

theorem convert_tags_spaces_and_commas_witness:
  "convert_tags (Some ''a, b c,,d'') = [''a'', ''bc'', [], ''d'']
   \<and> join_comma [''a'', ''bc'', [], ''d''] = ''a,bc,,d''
   \<and> fst (createPost example_new_post example_world) =
       Inr (Some [(''$id'', JStr ''p2''), (''creator'', JStr ''u1''),
                  (''caption'', JStr ''Hello''), (''imageUrl'', JStr (preview_url ''b2'')),
                  (''imageId'', JStr ''b2''), (''location'', JStr ''Oslo''),
                  (''tags'', JList [])])
   \<and> map_of [(''$id'', JStr ''p2''), (''creator'', JStr ''u1''),
              (''caption'', JStr ''Hello''), (''imageUrl'', JStr (preview_url ''b2'')),
              (''imageId'', JStr ''b2''), (''location'', JStr ''Oslo''),
              (''tags'', JList [])] ''tags'' = Some (JList [])
   \<and> fst (updatePost example_update_post example_world) =
       Inr (Some [(''caption'', JStr ''Hi''), (''imageUrl'', JStr (preview_url ''b2'')),
                  (''imageId'', JStr ''b2''), (''location'', JStr ''Paris''),
                  (''tags'', JList [''Art'', ''Expression'', ''Learn'']),
                  (''$id'', JStr ''p1''), (''creator'', JStr ''u1'')])
   \<and> map_of [(''caption'', JStr ''Hi''), (''imageUrl'', JStr (preview_url ''b2'')),
              (''imageId'', JStr ''b2''), (''location'', JStr ''Paris''),
              (''tags'', JList [''Art'', ''Expression'', ''Learn'']),
              (''$id'', JStr ''p1''), (''creator'', JStr ''u1'')] ''tags'' =
       Some (JList [''Art'', ''Expression'', ''Learn''])"
proof -
  let ?d = "[(''$id'', JStr ''p2''), (''creator'', JStr ''u1''),
             (''caption'', JStr ''Hello''), (''imageUrl'', JStr (preview_url ''b2'')),
             (''imageId'', JStr ''b2''), (''location'', JStr ''Oslo''),
             (''tags'', JList [])]"
  let ?d' = "[(''caption'', JStr ''Hi''), (''imageUrl'', JStr (preview_url ''b2'')),
              (''imageId'', JStr ''b2''), (''location'', JStr ''Paris''),
              (''tags'', JList [''Art'', ''Expression'', ''Learn'']),
              (''$id'', JStr ''p1''), (''creator'', JStr ''u1'')]"
  have created: "fst (createPost example_new_post example_world) = Inr (Some ?d)"
    by (simp add: createPost_def example_defs run_defs)
  have updated: "fst (updatePost example_update_post example_world) = Inr (Some ?d')"
    by (simp add: updatePost_def example_defs run_defs)
  have tags: "convert_tags (Some ''a, b c,,d'') = [''a'', ''bc'', [], ''d'']"
    "convert_tags (np_tags example_new_post) = []"
    "convert_tags (up_tags example_update_post) = [''Art'', ''Expression'', ''Learn'']"
    by (simp_all add: convert_tags_def replace_spaces_def example_defs)
  from convert_tags_spaces_and_commas
    [of "''a, b c,,d''" example_new_post example_world ?d example_update_post ?d']
    created updated
  have "join_comma (convert_tags (Some ''a, b c,,d'')) =
          filter (\<lambda>c. c \<noteq> CHR '' '') ''a, b c,,d''"
    and "map_of ?d ''tags'' = Some (JList (convert_tags (np_tags example_new_post)))"
    and "map_of ?d' ''tags'' = Some (JList (convert_tags (up_tags example_update_post)))"
    by blast+
  with created updated tags show ?thesis
    by simp
qed

subsection \<open>The number 0 as an optional parameter\<close>

text \<open>
  C10: \<^verbatim>\<open>getUsers(0)\<close> does what \<^verbatim>\<open>getUsers()\<close> does: the one request it issues
  lists the users ordered by creation date and carries no limit; and
  \<^verbatim>\<open>getInfinitePosts({pageParam: 0})\<close> issues its request with the order and the page
  size 9 and no cursor.
\<close>

theorem zero_counts_as_absent:
  "getUsers (Some 0) w = getUsers None w
   \<and> calls (snd (getUsers (Some 0) w)) =
       calls w @ [ListDocuments UserCollection [OrderDesc ''$createdAt'']]
   \<and> calls (snd (getInfinitePosts 0 w)) =
       calls w @ [ListDocuments PostCollection [OrderDesc ''$updatedAt'', Limit 9]]"
  by (simp add: getUsers_def getInfinitePosts_def js_defs sdk_defs
      split: reply.splits option.splits)

text \<open>Any other number is passed on.\<close>

lemma getUsers_nonzero_limit:
  "n \<noteq> 0 \<Longrightarrow> calls (snd (getUsers (Some n) w)) =
       calls w @ [ListDocuments UserCollection [OrderDesc ''$createdAt'', Limit n]]"
  by (simp add: getUsers_def js_defs sdk_defs split: reply.splits option.splits)

lemma getInfinitePosts_nonzero_cursor:
  "n \<noteq> 0 \<Longrightarrow> calls (snd (getInfinitePosts n w)) =
       calls w @ [ListDocuments PostCollection
                   [OrderDesc ''$updatedAt'', Limit 9, CursorAfter n]]"
  by (simp add: getInfinitePosts_def js_defs sdk_defs split: reply.splits option.splits)

subsection \<open>Deleting a post\<close>

text \<open>
  C6: when the post id or the image id is absent (\<^verbatim>\<open>undefined\<close> or the empty string),
  deletePost returns \<^verbatim>\<open>undefined\<close> and leaves the state as it is: no call is issued
  and nothing is logged. Otherwise the first call deletes the document. When the
  service accepts it and the document exists, the second and last call deletes the
  blob, the document is gone, and the result is the status Ok. When the deletion of
  the document fails, no further call is issued, the result is \<^verbatim>\<open>undefined\<close>, and the
  blobs and the documents are as before: the blob is never deleted while the document
  stays.
\<close>

theorem deletePost_document_first:
  "(postId = None \<or> postId = Some [] \<or> imageId = None \<or> imageId = Some [] \<longrightarrow>
      deletePost postId imageId w = (Inr None, w))
   \<and> (p \<noteq> [] \<and> i \<noteq> [] \<and> reply_at w 0 = Accept \<and> stored w PostCollection p \<noteq> None \<longrightarrow>
        fst (deletePost (Some p) (Some i) w) = Inr (Some ''Ok'')
        \<and> calls (snd (deletePost (Some p) (Some i) w)) =
            calls w @ [DeleteDocument PostCollection p, DeleteFile i]
        \<and> stored (snd (deletePost (Some p) (Some i) w)) PostCollection p = None)
   \<and> (p \<noteq> [] \<and> i \<noteq> [] \<and> (reply_at w 0 \<noteq> Accept \<or> stored w PostCollection p = None) \<longrightarrow>
        fst (deletePost (Some p) (Some i) w) = Inr None
        \<and> calls (snd (deletePost (Some p) (Some i) w)) =
            calls w @ [DeleteDocument PostCollection p]
        \<and> files (snd (deletePost (Some p) (Some i) w)) = files w
        \<and> documents (snd (deletePost (Some p) (Some i) w)) = documents w)"
proof (intro conjI impI)
  assume "postId = None \<or> postId = Some [] \<or> imageId = None \<or> imageId = Some []"
  then show "deletePost postId imageId w = (Inr None, w)"
    by (auto simp: deletePost_def js_return_def split: option.splits)
next
  assume a: "p \<noteq> [] \<and> i \<noteq> [] \<and> reply_at w 0 = Accept \<and> stored w PostCollection p \<noteq> None"
  then show "fst (deletePost (Some p) (Some i) w) = Inr (Some ''Ok'')"
    by (auto simp: deletePost_def js_defs sdk_defs helper_defs split: reply.splits)
  from a show "calls (snd (deletePost (Some p) (Some i) w)) =
            calls w @ [DeleteDocument PostCollection p, DeleteFile i]"
    by (auto simp: deletePost_def js_defs sdk_defs helper_defs split: reply.splits)
  from a show "stored (snd (deletePost (Some p) (Some i) w)) PostCollection p = None"
    by (auto simp: deletePost_def js_defs sdk_defs helper_defs stored_def map_of_filter_key
        split: reply.splits)
next
  assume a: "p \<noteq> [] \<and> i \<noteq> [] \<and> (reply_at w 0 \<noteq> Accept \<or> stored w PostCollection p = None)"
  then show "fst (deletePost (Some p) (Some i) w) = Inr None"
    by (auto simp: deletePost_def js_defs sdk_defs helper_defs split: reply.splits)
  from a show "calls (snd (deletePost (Some p) (Some i) w)) =
            calls w @ [DeleteDocument PostCollection p]"
    by (auto simp: deletePost_def js_defs sdk_defs helper_defs split: reply.splits)
  from a show "files (snd (deletePost (Some p) (Some i) w)) = files w"
    by (auto simp: deletePost_def js_defs sdk_defs helper_defs split: reply.splits)
  from a show "documents (snd (deletePost (Some p) (Some i) w)) = documents w"
    by (auto simp: deletePost_def js_defs sdk_defs helper_defs split: reply.splits)
qed

theorem deletePost_document_first_witness:
  "deletePost None (Some ''b1'') example_world = (Inr None, example_world)
   \<and> fst (deletePost (Some ''p1'') (Some ''b1'') example_world) = Inr (Some ''Ok'')
   \<and> calls (snd (deletePost (Some ''p1'') (Some ''b1'') example_world)) =
       [DeleteDocument PostCollection ''p1'', DeleteFile ''b1'']
   \<and> stored (snd (deletePost (Some ''p1'') (Some ''b1'') example_world)) PostCollection ''p1'' = None
   \<and> fst (deletePost (Some ''p1'') (Some ''b1'') (example_world\<lparr>replies := [Reject]\<rparr>)) = Inr None
   \<and> calls (snd (deletePost (Some ''p1'') (Some ''b1'') (example_world\<lparr>replies := [Reject]\<rparr>))) =
       [DeleteDocument PostCollection ''p1'']
   \<and> files (snd (deletePost (Some ''p1'') (Some ''b1'') (example_world\<lparr>replies := [Reject]\<rparr>))) =
       [''b1'', ''b9'']"
  using deletePost_document_first [of None "Some ''b1''" example_world "''p1''" "''b1''"]
    deletePost_document_first
      [of None "Some ''b1''" "example_world\<lparr>replies := [Reject]\<rparr>" "''p1''" "''b1''"]
  by (simp add: example_world_def reply_at_def stored_def)

subsection \<open>An update without a new image\<close>

lemma updatePost_no_file_calls:
  assumes "up_file post = []"
  shows "calls (snd (updatePost post w)) =
           calls w @ [UpdateDocument PostCollection (up_postId post)
                     [(''caption'', JStr (up_caption post)),
                      (''imageUrl'', JStr (up_imageUrl post)),
                      (''imageId'', JStr (up_imageId post)),
                      (''location'', js_opt (up_location post)),
                      (''tags'', JList (convert_tags (up_tags post)))]]"
    and "files (snd (updatePost post w)) = files w"
  using assms
  by (simp_all add: updatePost_def js_defs sdk_defs split: reply.splits option.splits)

lemma updatePost_no_file_documents:
  assumes "up_file post = []"
  shows "documents (snd (updatePost post w)) = documents w
         \<or> documents (snd (updatePost post w)) =
             map (\<lambda>kd. if fst kd = (PostCollection, up_postId post)
                   then (fst kd, merge_fields
                     [(''caption'', JStr (up_caption post)),
                      (''imageUrl'', JStr (up_imageUrl post)),
                      (''imageId'', JStr (up_imageId post)),
                      (''location'', js_opt (up_location post)),
                      (''tags'', JList (convert_tags (up_tags post)))] (snd kd))
                   else kd) (documents w)"
  using assms
  by (simp add: updatePost_def js_defs sdk_defs split: reply.splits option.splits)

lemma updatePost_no_file_image_ref:
  assumes "up_file post = []"
    and "\<forall>d. stored w PostCollection (up_postId post) = Some d \<longrightarrow>
           image_ref d = (Some (JStr (up_imageUrl post)), Some (JStr (up_imageId post)))"
  shows "map_option image_ref (stored (snd (updatePost post w)) c k) =
         map_option image_ref (stored w c k)"
proof -
  let ?payload = "[(''caption'', JStr (up_caption post)),
                      (''imageUrl'', JStr (up_imageUrl post)),
                      (''imageId'', JStr (up_imageId post)),
                      (''location'', js_opt (up_location post)),
                      (''tags'', JList (convert_tags (up_tags post)))]"
  have ref: "image_ref (merge_fields ?payload d) =
      (Some (JStr (up_imageUrl post)), Some (JStr (up_imageId post)))" for d
    by (rule image_ref_merge_fields) (simp_all add: defined_fields_def)
  from updatePost_no_file_documents [OF assms(1), of w]
  show ?thesis
  proof
    assume "documents (snd (updatePost post w)) = documents w"
    then show ?thesis by (simp add: stored_def)
  next
    assume "documents (snd (updatePost post w)) =
             map (\<lambda>kd. if fst kd = (PostCollection, up_postId post)
                   then (fst kd, merge_fields ?payload (snd kd)) else kd) (documents w)"
    then have "stored (snd (updatePost post w)) c k =
        (if (c, k) = (PostCollection, up_postId post)
         then map_option (merge_fields ?payload) (stored w c k) else stored w c k)"
      by (simp add: stored_def map_of_map_key)
    with assms(2) ref show ?thesis
      by (cases "stored w c k") (auto simp: option.map_comp)
  qed
qed

lemma updatePost_no_file_result:
  assumes "up_file post = []" and "fst (updatePost post w) = Inr (Some d)"
  shows "image_ref d = (Some (JStr (up_imageUrl post)), Some (JStr (up_imageId post)))"
    and "stored (snd (updatePost post w)) PostCollection (up_postId post) = Some d"
  using assms
  by (auto simp add: updatePost_def js_defs sdk_defs image_ref_def map_of_merge_fields
        defined_fields_def stored_def map_of_map_key
      split: reply.splits option.splits)

lemma updateUser_no_file_calls:
  assumes "uu_file user = []"
  shows "calls (snd (updateUser user w)) =
           calls w @ [UpdateDocument UserCollection (uu_userId user)
                     [(''name'', JStr (uu_name user)),
                      (''bi0'', JStr (uu_bio user)),
                      (''imageUrl'', JStr (uu_imageUrl user)),
                      (''imageId'', JStr (uu_imageId user))]]"
    and "files (snd (updateUser user w)) = files w"
  using assms
  by (simp_all add: updateUser_def js_defs sdk_defs split: reply.splits option.splits)

lemma updateUser_no_file_documents:
  assumes "uu_file user = []"
  shows "documents (snd (updateUser user w)) = documents w
         \<or> documents (snd (updateUser user w)) =
             map (\<lambda>kd. if fst kd = (UserCollection, uu_userId user)
                   then (fst kd, merge_fields
                     [(''name'', JStr (uu_name user)),
                      (''bi0'', JStr (uu_bio user)),
                      (''imageUrl'', JStr (uu_imageUrl user)),
                      (''imageId'', JStr (uu_imageId user))] (snd kd))
                   else kd) (documents w)"
  using assms
  by (simp add: updateUser_def js_defs sdk_defs split: reply.splits option.splits)

lemma updateUser_no_file_image_ref:
  assumes "uu_file user = []"
    and "\<forall>d. stored w UserCollection (uu_userId user) = Some d \<longrightarrow>
           image_ref d = (Some (JStr (uu_imageUrl user)), Some (JStr (uu_imageId user)))"
  shows "map_option image_ref (stored (snd (updateUser user w)) c k) =
         map_option image_ref (stored w c k)"
proof -
  let ?payload = "[(''name'', JStr (uu_name user)),
                      (''bi0'', JStr (uu_bio user)),
                      (''imageUrl'', JStr (uu_imageUrl user)),
                      (''imageId'', JStr (uu_imageId user))]"
  have ref: "image_ref (merge_fields ?payload d) =
      (Some (JStr (uu_imageUrl user)), Some (JStr (uu_imageId user)))" for d
    by (rule image_ref_merge_fields) (simp_all add: defined_fields_def)
  from updateUser_no_file_documents [OF assms(1), of w]
  show ?thesis
  proof
    assume "documents (snd (updateUser user w)) = documents w"
    then show ?thesis by (simp add: stored_def)
  next
    assume "documents (snd (updateUser user w)) =
             map (\<lambda>kd. if fst kd = (UserCollection, uu_userId user)
                   then (fst kd, merge_fields ?payload (snd kd)) else kd) (documents w)"
    then have "stored (snd (updateUser user w)) c k =
        (if (c, k) = (UserCollection, uu_userId user)
         then map_option (merge_fields ?payload) (stored w c k) else stored w c k)"
      by (simp add: stored_def map_of_map_key)
    with assms(2) ref show ?thesis
      by (cases "stored w c k") (auto simp: option.map_comp)
  qed
qed

lemma updateUser_no_file_result:
  assumes "uu_file user = []" and "fst (updateUser user w) = Inr (Some d)"
  shows "image_ref d = (Some (JStr (uu_imageUrl user)), Some (JStr (uu_imageId user)))"
    and "stored (snd (updateUser user w)) UserCollection (uu_userId user) = Some d"
  using assms
  by (auto simp add: updateUser_def js_defs sdk_defs image_ref_def map_of_merge_fields
        defined_fields_def stored_def map_of_map_key
      split: reply.splits option.splits)

text \<open>
  Whenever updatePost or updateUser returns \<^verbatim>\<open>undefined\<close>, with or without a new
  image, the documents of the store are as before and every blob that was in the
  bucket still is.
\<close>

lemma updatePost_failure_frame:
  assumes "fst (updatePost post w) = Inr None"
  shows "documents (snd (updatePost post w)) = documents w"
    and "set (files w) \<subseteq> set (files (snd (updatePost post w)))"
  using assms
  by (auto simp add: updatePost_def js_defs sdk_defs helper_defs
      split: reply.splits option.splits if_splits list.splits)

lemma updateUser_failure_frame:
  assumes "fst (updateUser user w) = Inr None"
  shows "documents (snd (updateUser user w)) = documents w"
    and "set (files w) \<subseteq> set (files (snd (updateUser user w)))"
  using assms
  by (auto simp add: updateUser_def js_defs sdk_defs helper_defs
      split: reply.splits option.splits if_splits list.splits)

text \<open>
  An update without a new image writes the image reference of its input, whatever the
  stored document holds. Called with an empty file list and with an image URL and an
  image id other than the stored ones, updatePost and updateUser succeed and replace
  the stored image reference: it is not the one before the call.
\<close>

theorem update_without_file_writes_input_reference:
  "up_file (example_update_post\<lparr>up_file := [], up_imageId := ''zzz'', up_imageUrl := ''other''\<rparr>)
     = []
   \<and> map_option image_ref (stored example_world PostCollection ''p1'') =
        Some (Some (JStr ''url1''), Some (JStr ''b1''))
   \<and> fst (updatePost
             (example_update_post\<lparr>up_file := [], up_imageId := ''zzz'', up_imageUrl := ''other''\<rparr>)
             example_world) =
        Inr (Some [(''caption'', JStr ''Hi''), (''imageUrl'', JStr ''other''),
                   (''imageId'', JStr ''zzz''), (''location'', JStr ''Paris''),
                   (''tags'', JList [''Art'', ''Expression'', ''Learn'']),
                   (''$id'', JStr ''p1''), (''creator'', JStr ''u1'')])
   \<and> map_option image_ref
        (stored (snd (updatePost
                        (example_update_post\<lparr>up_file := [], up_imageId := ''zzz'',
                                               up_imageUrl := ''other''\<rparr>)
                        example_world))
           PostCollection ''p1'') = Some (Some (JStr ''other''), Some (JStr ''zzz''))
   \<and> uu_file (example_update_user\<lparr>uu_file := [], uu_imageId := ''zzz'', uu_imageUrl := ''other''\<rparr>)
     = []
   \<and> map_option image_ref (stored example_world UserCollection ''u1'') =
        Some (Some (JStr ''url9''), Some (JStr ''b9''))
   \<and> fst (updateUser
             (example_update_user\<lparr>uu_file := [], uu_imageId := ''zzz'', uu_imageUrl := ''other''\<rparr>)
             example_world) =
        Inr (Some [(''name'', JStr ''Ann''), (''bi0'', JStr ''new bio''),
                   (''imageUrl'', JStr ''other''), (''imageId'', JStr ''zzz''),
                   (''$id'', JStr ''u1''), (''bio'', JStr ''old bio'')])
   \<and> map_option image_ref
        (stored (snd (updateUser
                        (example_update_user\<lparr>uu_file := [], uu_imageId := ''zzz'',
                                               uu_imageUrl := ''other''\<rparr>)
                        example_world))
           UserCollection ''u1'') = Some (Some (JStr ''other''), Some (JStr ''zzz''))"
  by (simp add: updatePost_def updateUser_def image_ref_def example_defs run_defs)

text \<open>
  C7, as the code has it: when updatePost or updateUser is called with an empty file list, it issues one
  call only, the update of the document, whose payload carries the image URL and the
  image id of the input; no blob is uploaded or deleted and the blobs of the bucket are
  as before. When the update succeeds, the stored document is the one returned and its
  image reference is the one of the input; when it fails, the documents are as before.
  So, the input carrying the image reference that the stored document has (the existing
  image of the post or profile, as the input of the workflow is defined), the image
  reference of every stored document after the call is the one it had before.
\<close>

theorem update_without_file_keeps_image:
  "(up_file post = [] \<longrightarrow>
      calls (snd (updatePost post w)) =
        calls w @ [UpdateDocument PostCollection (up_postId post)
                     [(''caption'', JStr (up_caption post)),
                      (''imageUrl'', JStr (up_imageUrl post)),
                      (''imageId'', JStr (up_imageId post)),
                      (''location'', js_opt (up_location post)),
                      (''tags'', JList (convert_tags (up_tags post)))]]
      \<and> files (snd (updatePost post w)) = files w
      \<and> (fst (updatePost post w) = Inr (Some d) \<longrightarrow>
            stored (snd (updatePost post w)) PostCollection (up_postId post) = Some d
            \<and> image_ref d = (Some (JStr (up_imageUrl post)), Some (JStr (up_imageId post))))
      \<and> (fst (updatePost post w) = Inr None \<longrightarrow>
            documents (snd (updatePost post w)) = documents w)
      \<and> ((\<forall>d. stored w PostCollection (up_postId post) = Some d \<longrightarrow>
                image_ref d = (Some (JStr (up_imageUrl post)), Some (JStr (up_imageId post))))
           \<longrightarrow> (\<forall>c k. map_option image_ref (stored (snd (updatePost post w)) c k) =
                       map_option image_ref (stored w c k))))
   \<and> (uu_file user = [] \<longrightarrow>
      calls (snd (updateUser user w)) =
        calls w @ [UpdateDocument UserCollection (uu_userId user)
                     [(''name'', JStr (uu_name user)),
                      (''bi0'', JStr (uu_bio user)),
                      (''imageUrl'', JStr (uu_imageUrl user)),
                      (''imageId'', JStr (uu_imageId user))]]
      \<and> files (snd (updateUser user w)) = files w
      \<and> (fst (updateUser user w) = Inr (Some e) \<longrightarrow>
            stored (snd (updateUser user w)) UserCollection (uu_userId user) = Some e
            \<and> image_ref e = (Some (JStr (uu_imageUrl user)), Some (JStr (uu_imageId user))))
      \<and> (fst (updateUser user w) = Inr None \<longrightarrow>
            documents (snd (updateUser user w)) = documents w)
      \<and> ((\<forall>d. stored w UserCollection (uu_userId user) = Some d \<longrightarrow>
                image_ref d = (Some (JStr (uu_imageUrl user)), Some (JStr (uu_imageId user))))
           \<longrightarrow> (\<forall>c k. map_option image_ref (stored (snd (updateUser user w)) c k) =
                       map_option image_ref (stored w c k))))"
  using updatePost_no_file_calls [of post w] updatePost_no_file_image_ref [of post w]
    updatePost_no_file_result [of post w d] updatePost_failure_frame(1) [of post w]
    updateUser_no_file_calls [of user w] updateUser_no_file_image_ref [of user w]
    updateUser_no_file_result [of user w e] updateUser_failure_frame(1) [of user w]
  by blast

theorem update_without_file_keeps_image_witness:
  "calls (snd (updatePost (example_update_post\<lparr>up_file := []\<rparr>) example_world)) =
     [UpdateDocument PostCollection ''p1''
        [(''caption'', JStr ''Hi''), (''imageUrl'', JStr ''url1''), (''imageId'', JStr ''b1''),
         (''location'', JStr ''Paris''), (''tags'', JList [''Art'', ''Expression'', ''Learn''])]]
   \<and> files (snd (updatePost (example_update_post\<lparr>up_file := []\<rparr>) example_world)) = [''b1'', ''b9'']
   \<and> map_option image_ref
        (stored (snd (updatePost (example_update_post\<lparr>up_file := []\<rparr>) example_world))
           PostCollection ''p1'') = Some (Some (JStr ''url1''), Some (JStr ''b1''))
   \<and> map_option image_ref (stored example_world PostCollection ''p1'') =
        Some (Some (JStr ''url1''), Some (JStr ''b1''))
   \<and> stored (snd (updatePost (example_update_post\<lparr>up_file := []\<rparr>) example_world))
        PostCollection ''p1'' =
       Some [(''caption'', JStr ''Hi''), (''imageUrl'', JStr ''url1''),
             (''imageId'', JStr ''b1''), (''location'', JStr ''Paris''),
             (''tags'', JList [''Art'', ''Expression'', ''Learn'']),
             (''$id'', JStr ''p1''), (''creator'', JStr ''u1'')]
   \<and> fst (updatePost (example_update_post\<lparr>up_file := []\<rparr>)
             (example_world\<lparr>replies := [Reject]\<rparr>)) = Inr None
   \<and> documents (snd (updatePost (example_update_post\<lparr>up_file := []\<rparr>)
                        (example_world\<lparr>replies := [Reject]\<rparr>))) = documents example_world
   \<and> calls (snd (updateUser (example_update_user\<lparr>uu_file := []\<rparr>) example_world)) =
     [UpdateDocument UserCollection ''u1''
        [(''name'', JStr ''Ann''), (''bi0'', JStr ''new bio''),
         (''imageUrl'', JStr ''url9''), (''imageId'', JStr ''b9'')]]
   \<and> files (snd (updateUser (example_update_user\<lparr>uu_file := []\<rparr>) example_world)) = [''b1'', ''b9'']
   \<and> map_option image_ref
        (stored (snd (updateUser (example_update_user\<lparr>uu_file := []\<rparr>) example_world))
           UserCollection ''u1'') = Some (Some (JStr ''url9''), Some (JStr ''b9''))
   \<and> map_option image_ref (stored example_world UserCollection ''u1'') =
        Some (Some (JStr ''url9''), Some (JStr ''b9''))
   \<and> stored (snd (updateUser (example_update_user\<lparr>uu_file := []\<rparr>) example_world))
        UserCollection ''u1'' =
       Some [(''name'', JStr ''Ann''), (''bi0'', JStr ''new bio''),
             (''imageUrl'', JStr ''url9''), (''imageId'', JStr ''b9''),
             (''$id'', JStr ''u1''), (''bio'', JStr ''old bio'')]
   \<and> fst (updateUser (example_update_user\<lparr>uu_file := []\<rparr>)
             (example_world\<lparr>replies := [Reject]\<rparr>)) = Inr None
   \<and> documents (snd (updateUser (example_update_user\<lparr>uu_file := []\<rparr>)
                        (example_world\<lparr>replies := [Reject]\<rparr>))) = documents example_world"
proof -
  let ?post = "example_update_post\<lparr>up_file := []\<rparr>"
  let ?user = "example_update_user\<lparr>uu_file := []\<rparr>"
  have no_file: "up_file ?post = []" "uu_file ?user = []"
    by simp_all
  have post_ref: "\<forall>d. stored example_world PostCollection (up_postId ?post) = Some d \<longrightarrow>
      image_ref d = (Some (JStr (up_imageUrl ?post)), Some (JStr (up_imageId ?post)))"
    by (auto simp: example_world_def example_update_post_def stored_def image_ref_def)
  have user_ref: "\<forall>d. stored example_world UserCollection (uu_userId ?user) = Some d \<longrightarrow>
      image_ref d = (Some (JStr (uu_imageUrl ?user)), Some (JStr (uu_imageId ?user)))"
    by (auto simp: example_world_def example_update_user_def stored_def image_ref_def)
  have before: "map_option image_ref (stored example_world PostCollection ''p1'') =
        Some (Some (JStr ''url1''), Some (JStr ''b1''))"
      "map_option image_ref (stored example_world UserCollection ''u1'') =
        Some (Some (JStr ''url9''), Some (JStr ''b9''))"
    by (simp_all add: example_world_def stored_def image_ref_def)
  have failed: "fst (updatePost ?post (example_world\<lparr>replies := [Reject]\<rparr>)) = Inr None"
      "fst (updateUser ?user (example_world\<lparr>replies := [Reject]\<rparr>)) = Inr None"
    by (simp_all add: updatePost_def updateUser_def example_defs run_defs)
  have vals: "calls example_world = []" "files example_world = [''b1'', ''b9'']"
    "up_postId ?post = ''p1''" "up_caption ?post = ''Hi''" "up_imageUrl ?post = ''url1''"
    "up_imageId ?post = ''b1''" "js_opt (up_location ?post) = JStr ''Paris''"
    "convert_tags (up_tags ?post) = [''Art'', ''Expression'', ''Learn'']"
    "uu_userId ?user = ''u1''" "uu_name ?user = ''Ann''" "uu_bio ?user = ''new bio''"
    "uu_imageUrl ?user = ''url9''" "uu_imageId ?user = ''b9''"
    "documents (example_world\<lparr>replies := [Reject]\<rparr>) = documents example_world"
    by (simp_all add: example_defs js_opt_def convert_tags_def replace_spaces_def)
  let ?d = "[(''caption'', JStr ''Hi''), (''imageUrl'', JStr ''url1''),
             (''imageId'', JStr ''b1''), (''location'', JStr ''Paris''),
             (''tags'', JList [''Art'', ''Expression'', ''Learn'']),
             (''$id'', JStr ''p1''), (''creator'', JStr ''u1'')]"
  let ?e = "[(''name'', JStr ''Ann''), (''bi0'', JStr ''new bio''),
             (''imageUrl'', JStr ''url9''), (''imageId'', JStr ''b9''),
             (''$id'', JStr ''u1''), (''bio'', JStr ''old bio'')]"
  have succeeded: "fst (updatePost ?post example_world) = Inr (Some ?d)"
      "fst (updateUser ?user example_world) = Inr (Some ?e)"
    by (simp_all add: updatePost_def updateUser_def example_defs run_defs)
  note ok = update_without_file_keeps_image [of ?post example_world ?d ?user ?e]
  note ko = update_without_file_keeps_image
    [of ?post "example_world\<lparr>replies := [Reject]\<rparr>" _ ?user]
  from ok no_file have
    "calls (snd (updatePost ?post example_world)) =
        calls example_world @ [UpdateDocument PostCollection (up_postId ?post)
                     [(''caption'', JStr (up_caption ?post)),
                      (''imageUrl'', JStr (up_imageUrl ?post)),
                      (''imageId'', JStr (up_imageId ?post)),
                      (''location'', js_opt (up_location ?post)),
                      (''tags'', JList (convert_tags (up_tags ?post)))]]"
    "files (snd (updatePost ?post example_world)) = files example_world"
    "calls (snd (updateUser ?user example_world)) =
        calls example_world @ [UpdateDocument UserCollection (uu_userId ?user)
                     [(''name'', JStr (uu_name ?user)),
                      (''bi0'', JStr (uu_bio ?user)),
                      (''imageUrl'', JStr (uu_imageUrl ?user)),
                      (''imageId'', JStr (uu_imageId ?user))]]"
    "files (snd (updateUser ?user example_world)) = files example_world"
    by blast+
  moreover from ok no_file post_ref user_ref have
    "map_option image_ref (stored (snd (updatePost ?post example_world)) PostCollection ''p1'') =
       map_option image_ref (stored example_world PostCollection ''p1'')"
    "map_option image_ref (stored (snd (updateUser ?user example_world)) UserCollection ''u1'') =
       map_option image_ref (stored example_world UserCollection ''u1'')"
    by blast+
  moreover from ok no_file succeeded have
    "stored (snd (updatePost ?post example_world)) PostCollection (up_postId ?post) = Some ?d"
    "stored (snd (updateUser ?user example_world)) UserCollection (uu_userId ?user) = Some ?e"
    by blast+
  moreover from ko no_file failed have
    "documents (snd (updatePost ?post (example_world\<lparr>replies := [Reject]\<rparr>))) =
       documents (example_world\<lparr>replies := [Reject]\<rparr>)"
    "documents (snd (updateUser ?user (example_world\<lparr>replies := [Reject]\<rparr>))) =
       documents (example_world\<lparr>replies := [Reject]\<rparr>)"
    by blast+
  ultimately show ?thesis
    using before failed unfolding vals by simp
qed

subsection \<open>A successful update with a new image\<close>

lemma updatePost_success_steps:
  assumes "up_file post = f # fs" and "fst (updatePost post w) = Inr (Some d)"
  shows "reply_at w 0 = Accept \<and> reply_at w 1 = Accept \<and> reply_at w 2 = Accept"
    and "next_id w \<notin> set (files w)"
    and "calls (snd (updatePost post w)) = calls w @
           [CreateFile (next_id w) f, GetFilePreview (next_id w),
            UpdateDocument PostCollection (up_postId post)
                     [(''caption'', JStr (up_caption post)),
                      (''imageUrl'', JStr (preview_url (next_id w))),
                      (''imageId'', JStr (next_id w)),
                      (''location'', js_opt (up_location post)),
                      (''tags'', JList (convert_tags (up_tags post)))],
            DeleteFile (up_imageId post)]"
    and "documents (snd (updatePost post w)) =
           map (\<lambda>kd. if fst kd = (PostCollection, up_postId post)
                   then (fst kd, merge_fields
                     [(''caption'', JStr (up_caption post)),
                      (''imageUrl'', JStr (preview_url (next_id w))),
                      (''imageId'', JStr (next_id w)),
                      (''location'', js_opt (up_location post)),
                      (''tags'', JList (convert_tags (up_tags post)))] (snd kd))
                   else kd) (documents w)"
    and "reply_at w 3 = Accept \<Longrightarrow> up_imageId post \<notin> set (files (snd (updatePost post w)))"
  using assms
  by (auto simp add: updatePost_def js_defs sdk_defs helper_defs numeral_2_eq_2 numeral_3_eq_3
      split: reply.splits option.splits if_splits)

lemma referrers_after_update:
  assumes "documents w' =
             map (\<lambda>kd. if fst kd = key then (fst kd, merge_fields payload (snd kd)) else kd)
               (documents w)"
    and "map_of (defined_fields payload) ''imageId'' = Some (JStr new)"
    and "new \<noteq> old"
    and "set (referrers w old) \<subseteq> {key}"
  shows "referrers w' old = []"
proof -
  have "map_of (snd (if fst kd = key then (fst kd, merge_fields payload (snd kd)) else kd))
          ''imageId'' \<noteq> Some (JStr old)"
    if kd: "kd \<in> set (documents w)" for kd
  proof (cases "fst kd = key")
    case True
    with assms(2,3) show ?thesis by (simp add: map_of_merge_fields)
  next
    case False
    have "map_of (snd kd) ''imageId'' \<noteq> Some (JStr old)"
    proof
      assume "map_of (snd kd) ''imageId'' = Some (JStr old)"
      with kd have "fst kd \<in> set (referrers w old)"
        by (force simp: referrers_def case_prod_beta)
      with assms(4) False show False by auto
    qed
    with False show ?thesis by simp
  qed
  then show ?thesis
    by (simp add: referrers_def assms(1) filter_map filter_empty_conv o_def case_prod_beta)
qed

lemma updateUser_success_steps:
  assumes "uu_file user = f # fs" and "uu_imageId user \<noteq> []"
    and "fst (updateUser user w) = Inr (Some d)"
  shows "reply_at w 0 = Accept \<and> reply_at w 1 = Accept \<and> reply_at w 2 = Accept"
    and "next_id w \<notin> set (files w)"
    and "calls (snd (updateUser user w)) = calls w @
           [CreateFile (next_id w) f, GetFilePreview (next_id w),
            UpdateDocument UserCollection (uu_userId user)
                     [(''name'', JStr (uu_name user)),
                      (''bi0'', JStr (uu_bio user)),
                      (''imageUrl'', JStr (preview_url (next_id w))),
                      (''imageId'', JStr (next_id w))],
            DeleteFile (uu_imageId user)]"
    and "documents (snd (updateUser user w)) =
           map (\<lambda>kd. if fst kd = (UserCollection, uu_userId user)
                   then (fst kd, merge_fields
                     [(''name'', JStr (uu_name user)),
                      (''bi0'', JStr (uu_bio user)),
                      (''imageUrl'', JStr (preview_url (next_id w))),
                      (''imageId'', JStr (next_id w))] (snd kd))
                   else kd) (documents w)"
    and "reply_at w 3 = Accept \<Longrightarrow> uu_imageId user \<notin> set (files (snd (updateUser user w)))"
  using assms
  by (auto simp add: updateUser_def js_defs sdk_defs helper_defs numeral_2_eq_2 numeral_3_eq_3
      split: reply.splits option.splits if_splits)

lemma updatePost_success_unreferenced:
  assumes "up_file post = f # fs" and "fst (updatePost post w) = Inr (Some d)"
    and "up_imageId post \<in> set (files w)"
    and "set (referrers w (up_imageId post)) \<subseteq> {(PostCollection, up_postId post)}"
  shows "referrers (snd (updatePost post w)) (up_imageId post) = []"
proof (rule referrers_after_update [OF updatePost_success_steps(4) [OF assms(1,2)]])
  show "next_id w \<noteq> up_imageId post"
    using updatePost_success_steps(2) [OF assms(1,2)] assms(3) by auto
qed (use assms(4) in \<open>simp_all add: defined_fields_def\<close>)

lemma updateUser_success_unreferenced:
  assumes "uu_file user = f # fs" and "uu_imageId user \<noteq> []"
    and "fst (updateUser user w) = Inr (Some d)"
    and "uu_imageId user \<in> set (files w)"
    and "set (referrers w (uu_imageId user)) \<subseteq> {(UserCollection, uu_userId user)}"
  shows "referrers (snd (updateUser user w)) (uu_imageId user) = []"
proof (rule referrers_after_update [OF updateUser_success_steps(4) [OF assms(1,2,3)]])
  show "next_id w \<noteq> uu_imageId user"
    using updateUser_success_steps(2) [OF assms(1,2,3)] assms(4) by auto
qed (use assms(5) in \<open>simp_all add: defined_fields_def\<close>)

text \<open>
  A successful update with a new image does not always delete the old blob, and the
  blob it deletes may still be referred to. When the service rejects the deletion of
  the old blob, deleteFile logs the exception and updatePost returns the updated
  document all the same, with the old blob \<^verbatim>\<open>b1\<close> still in the bucket; so does updateUser
  with the old blob \<^verbatim>\<open>b9\<close>. And the blob that is deleted is the one the input names:
  called for the post \<^verbatim>\<open>p1\<close> with the image id \<^verbatim>\<open>b9\<close>, updatePost succeeds and deletes
  the blob \<^verbatim>\<open>b9\<close>, to which the profile \<^verbatim>\<open>u1\<close> still refers.
\<close>

theorem update_success_leaves_old_blob:
  "fst (updatePost example_update_post
          (example_world\<lparr>replies := [Accept, Accept, Accept, Reject]\<rparr>)) =
     Inr (Some [(''caption'', JStr ''Hi''), (''imageUrl'', JStr (preview_url ''b2'')),
                (''imageId'', JStr ''b2''), (''location'', JStr ''Paris''),
                (''tags'', JList [''Art'', ''Expression'', ''Learn'']),
                (''$id'', JStr ''p1''), (''creator'', JStr ''u1'')])
   \<and> up_imageId example_update_post = ''b1''
   \<and> files (snd (updatePost example_update_post
                    (example_world\<lparr>replies := [Accept, Accept, Accept, Reject]\<rparr>))) =
       [''b1'', ''b9'', ''b2'']
   \<and> fst (updateUser example_update_user
             (example_world\<lparr>replies := [Accept, Accept, Accept, Reject]\<rparr>)) =
       Inr (Some [(''name'', JStr ''Ann''), (''bi0'', JStr ''new bio''),
                  (''imageUrl'', JStr (preview_url ''b2'')), (''imageId'', JStr ''b2''),
                  (''$id'', JStr ''u1''), (''bio'', JStr ''old bio'')])
   \<and> uu_imageId example_update_user = ''b9''
   \<and> files (snd (updateUser example_update_user
                    (example_world\<lparr>replies := [Accept, Accept, Accept, Reject]\<rparr>))) =
       [''b1'', ''b9'', ''b2'']
   \<and> fst (updatePost (example_update_post\<lparr>up_imageId := ''b9''\<rparr>) example_world) =
       Inr (Some [(''caption'', JStr ''Hi''), (''imageUrl'', JStr (preview_url ''b2'')),
                  (''imageId'', JStr ''b2''), (''location'', JStr ''Paris''),
                  (''tags'', JList [''Art'', ''Expression'', ''Learn'']),
                  (''$id'', JStr ''p1''), (''creator'', JStr ''u1'')])
   \<and> files (snd (updatePost (example_update_post\<lparr>up_imageId := ''b9''\<rparr>) example_world)) =
       [''b1'', ''b2'']
   \<and> referrers (snd (updatePost (example_update_post\<lparr>up_imageId := ''b9''\<rparr>) example_world))
        ''b9'' = [(UserCollection, ''u1'')]"
  by (simp add: updatePost_def updateUser_def referrers_def example_defs run_defs)

text \<open>
  C2, as the code has it: when updatePost is called with a new image and returns the updated document
  (the update step succeeded), the calls it issued are the upload, the preview, the
  update of the document with the new image reference and, last, the deletion of the
  old blob, the image id of the input. When the service accepts that deletion, the old
  blob is not in the bucket afterwards. When the old blob was in the bucket and no
  document other than the updated one referred to it, no document refers to it
  afterwards. The same holds for updateUser when the image id of the input is not
  empty (line 441 deletes the old blob under \<^verbatim>\<open>user.imageId && hasFileToUpdate\<close>).
\<close>

theorem update_success_deletes_old_blob:
  "(up_file post = f # fs \<and> fst (updatePost post w) = Inr (Some d) \<longrightarrow>
      calls (snd (updatePost post w)) = calls w @
        [CreateFile (next_id w) f, GetFilePreview (next_id w),
         UpdateDocument PostCollection (up_postId post)
           [(''caption'', JStr (up_caption post)),
            (''imageUrl'', JStr (preview_url (next_id w))),
            (''imageId'', JStr (next_id w)),
            (''location'', js_opt (up_location post)),
            (''tags'', JList (convert_tags (up_tags post)))],
         DeleteFile (up_imageId post)]
      \<and> (reply_at w 3 = Accept \<longrightarrow>
            up_imageId post \<notin> set (files (snd (updatePost post w))))
      \<and> (up_imageId post \<in> set (files w)
          \<and> set (referrers w (up_imageId post)) \<subseteq> {(PostCollection, up_postId post)} \<longrightarrow>
            referrers (snd (updatePost post w)) (up_imageId post) = []))
   \<and> (uu_file user = g # gs \<and> uu_imageId user \<noteq> []
       \<and> fst (updateUser user w) = Inr (Some e) \<longrightarrow>
      calls (snd (updateUser user w)) = calls w @
        [CreateFile (next_id w) g, GetFilePreview (next_id w),
         UpdateDocument UserCollection (uu_userId user)
           [(''name'', JStr (uu_name user)),
            (''bi0'', JStr (uu_bio user)),
            (''imageUrl'', JStr (preview_url (next_id w))),
            (''imageId'', JStr (next_id w))],
         DeleteFile (uu_imageId user)]
      \<and> (reply_at w 3 = Accept \<longrightarrow>
            uu_imageId user \<notin> set (files (snd (updateUser user w))))
      \<and> (uu_imageId user \<in> set (files w)
          \<and> set (referrers w (uu_imageId user)) \<subseteq> {(UserCollection, uu_userId user)} \<longrightarrow>
            referrers (snd (updateUser user w)) (uu_imageId user) = []))"
  using updatePost_success_steps(3,5) [of post f fs w d]
    updatePost_success_unreferenced [of post f fs w d]
    updateUser_success_steps(3,5) [of user g gs w e]
    updateUser_success_unreferenced [of user g gs w e]
  by blast

theorem update_success_deletes_old_blob_witness:
  "calls (snd (updatePost example_update_post example_world)) =
     [CreateFile ''b2'' ''bytes'', GetFilePreview ''b2'',
      UpdateDocument PostCollection ''p1''
        [(''caption'', JStr ''Hi''),
         (''imageUrl'', JStr (preview_url ''b2'')),
         (''imageId'', JStr ''b2''), (''location'', JStr ''Paris''),
         (''tags'', JList [''Art'', ''Expression'', ''Learn''])],
      DeleteFile ''b1'']
   \<and> ''b1'' \<notin> set (files (snd (updatePost example_update_post example_world)))
   \<and> referrers (snd (updatePost example_update_post example_world)) ''b1'' = []
   \<and> calls (snd (updateUser example_update_user example_world)) =
     [CreateFile ''b2'' ''bytes'', GetFilePreview ''b2'',
      UpdateDocument UserCollection ''u1''
        [(''name'', JStr ''Ann''), (''bi0'', JStr ''new bio''),
         (''imageUrl'', JStr (preview_url ''b2'')),
         (''imageId'', JStr ''b2'')],
      DeleteFile ''b9'']
   \<and> ''b9'' \<notin> set (files (snd (updateUser example_update_user example_world)))
   \<and> referrers (snd (updateUser example_update_user example_world)) ''b9'' = []"
proof -
  have post_ok: "fst (updatePost example_update_post example_world) =
      Inr (Some [(''caption'', JStr ''Hi''), (''imageUrl'', JStr (preview_url ''b2'')),
                 (''imageId'', JStr ''b2''), (''location'', JStr ''Paris''),
                 (''tags'', JList [''Art'', ''Expression'', ''Learn'']),
                 (''$id'', JStr ''p1''), (''creator'', JStr ''u1'')])"
    by (simp add: updatePost_def example_defs run_defs)
  have user_ok: "fst (updateUser example_update_user example_world) =
      Inr (Some [(''name'', JStr ''Ann''), (''bi0'', JStr ''new bio''),
                 (''imageUrl'', JStr (preview_url ''b2'')), (''imageId'', JStr ''b2''),
                 (''$id'', JStr ''u1''), (''bio'', JStr ''old bio'')])"
    by (simp add: updateUser_def example_defs run_defs)
  have facts: "up_file example_update_post = [''bytes'']"
    "uu_file example_update_user = [''bytes'']"
    "uu_imageId example_update_user \<noteq> []"
    "reply_at example_world 3 = Accept"
    "up_imageId example_update_post \<in> set (files example_world)"
    "uu_imageId example_update_user \<in> set (files example_world)"
    "set (referrers example_world (up_imageId example_update_post))
       \<subseteq> {(PostCollection, up_postId example_update_post)}"
    "set (referrers example_world (uu_imageId example_update_user))
       \<subseteq> {(UserCollection, uu_userId example_update_user)}"
    by (simp_all add: example_defs reply_at_def referrers_def)
  have vals: "next_id example_world = ''b2''" "calls example_world = []"
    "up_imageId example_update_post = ''b1''" "uu_imageId example_update_user = ''b9''"
    "up_postId example_update_post = ''p1''" "uu_userId example_update_user = ''u1''"
    "up_caption example_update_post = ''Hi''" "uu_name example_update_user = ''Ann''"
    "uu_bio example_update_user = ''new bio''"
    "js_opt (up_location example_update_post) = JStr ''Paris''"
    "convert_tags (up_tags example_update_post) = [''Art'', ''Expression'', ''Learn'']"
    by (simp_all add: example_defs next_id_def js_opt_def convert_tags_def replace_spaces_def)
  from update_success_deletes_old_blob
    [of example_update_post "''bytes''" "[]" example_world
        "[(''caption'', JStr ''Hi''), (''imageUrl'', JStr (preview_url ''b2'')),
          (''imageId'', JStr ''b2''), (''location'', JStr ''Paris''),
          (''tags'', JList [''Art'', ''Expression'', ''Learn'']),
          (''$id'', JStr ''p1''), (''creator'', JStr ''u1'')]"
        example_update_user "''bytes''" "[]"
        "[(''name'', JStr ''Ann''), (''bi0'', JStr ''new bio''),
          (''imageUrl'', JStr (preview_url ''b2'')), (''imageId'', JStr ''b2''),
          (''$id'', JStr ''u1''), (''bio'', JStr ''old bio'')]"]
    post_ok user_ok facts
  show ?thesis
    unfolding vals by simp
qed

text \<open>A profile without an image id has no old blob: nothing is deleted.\<close>

lemma updateUser_success_without_old_blob:
  assumes "uu_file user = f # fs" and "uu_imageId user = []"
    and "fst (updateUser user w) = Inr (Some d)"
  shows "calls (snd (updateUser user w)) = calls w @
           [CreateFile (next_id w) f, GetFilePreview (next_id w),
            UpdateDocument UserCollection (uu_userId user)
                     [(''name'', JStr (uu_name user)),
                      (''bi0'', JStr (uu_bio user)),
                      (''imageUrl'', JStr (preview_url (next_id w))),
                      (''imageId'', JStr (next_id w))]]"
    and "files (snd (updateUser user w)) = files w @ [next_id w]"
  using assms
  by (auto simp add: updateUser_def js_defs sdk_defs helper_defs numeral_2_eq_2 numeral_3_eq_3
      split: reply.splits option.splits if_splits)

subsection \<open>A failed update with a new image\<close>

text \<open>
  The new blob is deleted when the update is fulfilled with a falsy value (lines
  302-307), and stays when the update is rejected: the rejection is an exception, which
  leaves the \<^verbatim>\<open>try\<close> block before line 302.
\<close>

lemma updatePost_falsy_update_deletes_new_blob:
  assumes "up_file post = f # fs" and "reply_at w 0 = Accept" and "next_id w \<notin> set (files w)"
    and "reply_at w 1 = Accept" and "reply_at w 2 = Falsy" and "reply_at w 3 = Accept"
  shows "fst (updatePost post w) = Inr None"
    and "files (snd (updatePost post w)) = files w"
    and "calls (snd (updatePost post w)) = calls w @
           [CreateFile (next_id w) f, GetFilePreview (next_id w),
            UpdateDocument PostCollection (up_postId post)
                     [(''caption'', JStr (up_caption post)),
                      (''imageUrl'', JStr (preview_url (next_id w))),
                      (''imageId'', JStr (next_id w)),
                      (''location'', js_opt (up_location post)),
                      (''tags'', JList (convert_tags (up_tags post)))],
            DeleteFile (next_id w)]"
  using assms
  by (auto simp add: updatePost_def js_defs sdk_defs helper_defs numeral_2_eq_2 numeral_3_eq_3
      split: reply.splits option.splits if_splits)

lemma updatePost_rejected_update_keeps_new_blob:
  assumes "up_file post = f # fs" and "reply_at w 0 = Accept" and "next_id w \<notin> set (files w)"
    and "reply_at w 1 = Accept" and "reply_at w 2 = Reject"
  shows "fst (updatePost post w) = Inr None"
    and "files (snd (updatePost post w)) = files w @ [next_id w]"
    and "calls (snd (updatePost post w)) = calls w @
           [CreateFile (next_id w) f, GetFilePreview (next_id w),
            UpdateDocument PostCollection (up_postId post)
                     [(''caption'', JStr (up_caption post)),
                      (''imageUrl'', JStr (preview_url (next_id w))),
                      (''imageId'', JStr (next_id w)),
                      (''location'', js_opt (up_location post)),
                      (''tags'', JList (convert_tags (up_tags post)))]]"
  using assms
  by (auto simp add: updatePost_def js_defs sdk_defs helper_defs numeral_2_eq_2 numeral_3_eq_3
      split: reply.splits option.splits if_splits)

lemma updateUser_rejected_update_keeps_new_blob:
  assumes "uu_file user = f # fs" and "reply_at w 0 = Accept" and "next_id w \<notin> set (files w)"
    and "reply_at w 1 = Accept" and "reply_at w 2 = Reject"
  shows "fst (updateUser user w) = Inr None"
    and "files (snd (updateUser user w)) = files w @ [next_id w]"
    and "calls (snd (updateUser user w)) = calls w @
           [CreateFile (next_id w) f, GetFilePreview (next_id w),
            UpdateDocument UserCollection (uu_userId user)
                     [(''name'', JStr (uu_name user)),
                      (''bi0'', JStr (uu_bio user)),
                      (''imageUrl'', JStr (preview_url (next_id w))),
                      (''imageId'', JStr (next_id w))]]"
  using assms
  by (auto simp add: updateUser_def js_defs sdk_defs helper_defs numeral_2_eq_2 numeral_3_eq_3
      split: reply.splits option.splits if_splits)

text \<open>
  C1, where the code departs from it: on the example store, with a new image, the
  upload and the preview accepted and the update of the document rejected, updatePost
  returns \<^verbatim>\<open>undefined\<close> after three calls, none of them a deletion; the new blob b2 is
  in the bucket and no document refers to it, while the documents are as before and
  the old blob is untouched. updateUser does the same.
\<close>

theorem update_rejected_leaves_new_blob:
  "fst (updatePost example_update_post (example_world\<lparr>replies := [Accept, Accept, Reject]\<rparr>))
     = Inr None
   \<and> calls (snd (updatePost example_update_post
                   (example_world\<lparr>replies := [Accept, Accept, Reject]\<rparr>))) =
       [CreateFile ''b2'' ''bytes'', GetFilePreview ''b2'',
        UpdateDocument PostCollection ''p1''
          [(''caption'', JStr ''Hi''), (''imageUrl'', JStr (preview_url ''b2'')),
           (''imageId'', JStr ''b2''), (''location'', JStr ''Paris''),
           (''tags'', JList [''Art'', ''Expression'', ''Learn''])]]
   \<and> files (snd (updatePost example_update_post
                   (example_world\<lparr>replies := [Accept, Accept, Reject]\<rparr>))) =
       [''b1'', ''b9'', ''b2'']
   \<and> referrers (snd (updatePost example_update_post
                   (example_world\<lparr>replies := [Accept, Accept, Reject]\<rparr>))) ''b2'' = []
   \<and> documents (snd (updatePost example_update_post
                   (example_world\<lparr>replies := [Accept, Accept, Reject]\<rparr>))) =
       documents example_world
   \<and> fst (updateUser example_update_user (example_world\<lparr>replies := [Accept, Accept, Reject]\<rparr>))
     = Inr None
   \<and> calls (snd (updateUser example_update_user
                   (example_world\<lparr>replies := [Accept, Accept, Reject]\<rparr>))) =
       [CreateFile ''b2'' ''bytes'', GetFilePreview ''b2'',
        UpdateDocument UserCollection ''u1''
          [(''name'', JStr ''Ann''), (''bi0'', JStr ''new bio''),
           (''imageUrl'', JStr (preview_url ''b2'')), (''imageId'', JStr ''b2'')]]
   \<and> files (snd (updateUser example_update_user
                   (example_world\<lparr>replies := [Accept, Accept, Reject]\<rparr>))) =
       [''b1'', ''b9'', ''b2'']
   \<and> referrers (snd (updateUser example_update_user
                   (example_world\<lparr>replies := [Accept, Accept, Reject]\<rparr>))) ''b2'' = []
   \<and> documents (snd (updateUser example_update_user
                   (example_world\<lparr>replies := [Accept, Accept, Reject]\<rparr>))) =
       documents example_world"
  by (simp add: updatePost_def updateUser_def example_defs run_defs referrers_def)

subsection \<open>A failed creation of a post\<close>

text \<open>
  When the preview fails, or the creation of the document is fulfilled with a falsy
  value, createPost deletes the blob it uploaded; when the creation is rejected it
  does not.
\<close>

lemma createPost_preview_failure:
  assumes "np_file post = f # fs" and "reply_at w 0 = Accept" and "next_id w \<notin> set (files w)"
    and "reply_at w 1 \<noteq> Accept"
  shows "fst (createPost post w) = Inr None"
    and "calls (snd (createPost post w)) = calls w @
           [CreateFile (next_id w) f, GetFilePreview (next_id w), DeleteFile (next_id w)]"
    and "reply_at w 2 = Accept \<Longrightarrow> files (snd (createPost post w)) = files w"
  using assms
  by (auto simp add: createPost_def js_defs sdk_defs helper_defs numeral_2_eq_2
      split: reply.splits option.splits if_splits)

lemma createPost_falsy_create:
  assumes "np_file post = f # fs" and "reply_at w 0 = Accept" and "next_id w \<notin> set (files w)"
    and "reply_at w 1 = Accept" and "reply_at w 2 = Falsy"
  shows "fst (createPost post w) = Inr None"
    and "\<exists>cs. calls (snd (createPost post w)) = cs @ [DeleteFile (next_id w)]"
    and "reply_at w 3 = Accept \<Longrightarrow> files (snd (createPost post w)) = files w"
  using assms
  by (auto simp add: createPost_def js_defs sdk_defs helper_defs numeral_2_eq_2 numeral_3_eq_3
      split: reply.splits option.splits if_splits)

lemma createPost_rejected_create:
  assumes "np_file post = f # fs" and "reply_at w 0 = Accept" and "next_id w \<notin> set (files w)"
    and "reply_at w 1 = Accept" and "reply_at w 2 = Reject"
  shows "fst (createPost post w) = Inr None"
    and "files (snd (createPost post w)) = files w @ [next_id w]"
    and "DeleteFile (next_id w) \<notin> set (calls (snd (createPost post w))) - set (calls w)"
  using assms
  by (auto simp add: createPost_def js_defs sdk_defs helper_defs numeral_2_eq_2 numeral_3_eq_3
      split: reply.splits option.splits if_splits)

text \<open>
  C5, where the code departs from it: on the example store, with the upload and the
  preview accepted and the creation of the document rejected, createPost returns
  \<^verbatim>\<open>undefined\<close> after three calls, none of them a deletion; the uploaded blob b2 is in
  the bucket and no document refers to it.
\<close>

theorem createPost_rejected_leaves_blob:
  "fst (createPost example_new_post (example_world\<lparr>replies := [Accept, Accept, Reject]\<rparr>))
     = Inr None
   \<and> calls (snd (createPost example_new_post
                   (example_world\<lparr>replies := [Accept, Accept, Reject]\<rparr>))) =
       [CreateFile ''b2'' ''bytes'', GetFilePreview ''b2'',
        CreateDocument PostCollection ''p2''
          [(''creator'', JStr ''u1''), (''caption'', JStr ''Hello''),
           (''imageUrl'', JStr (preview_url ''b2'')), (''imageId'', JStr ''b2''),
           (''location'', JStr ''Oslo''), (''tags'', JList [])]]
   \<and> files (snd (createPost example_new_post
                   (example_world\<lparr>replies := [Accept, Accept, Reject]\<rparr>))) =
       [''b1'', ''b9'', ''b2'']
   \<and> referrers (snd (createPost example_new_post
                   (example_world\<lparr>replies := [Accept, Accept, Reject]\<rparr>))) ''b2'' = []"
  by (simp add: createPost_def example_defs run_defs referrers_def)

subsection \<open>The field names of a profile update\<close>

text \<open>
  C4, where the code departs from it: the payload that updateUser sends names its
  fields \<^verbatim>\<open>name\<close>, \<^verbatim>\<open>bi0\<close>, \<^verbatim>\<open>imageUrl\<close> and \<^verbatim>\<open>imageId\<close>. On the example store
  the stored profile afterwards has the new biography under \<^verbatim>\<open>bi0\<close> and the old one
  still under \<^verbatim>\<open>bio\<close>.
\<close>

theorem updateUser_writes_bi0:
  "calls (snd (updateUser (example_update_user\<lparr>uu_file := []\<rparr>) example_world)) =
     [UpdateDocument UserCollection ''u1''
        [(''name'', JStr ''Ann''), (''bi0'', JStr ''new bio''),
         (''imageUrl'', JStr ''url9''), (''imageId'', JStr ''b9'')]]
   \<and> stored (snd (updateUser (example_update_user\<lparr>uu_file := []\<rparr>) example_world))
        UserCollection ''u1'' =
       Some [(''name'', JStr ''Ann''), (''bi0'', JStr ''new bio''),
             (''imageUrl'', JStr ''url9''), (''imageId'', JStr ''b9''),
             (''$id'', JStr ''u1''), (''bio'', JStr ''old bio'')]"
  by (simp add: updateUser_def example_defs run_defs)

subsection \<open>Exceptions stay inside the workflows\<close>

text \<open>
  A \<^verbatim>\<open>try\<close> block whose handler logs and returns does not throw, whatever its body
  does; every workflow but getPostById is such a block, or returns before it.
\<close>

lemma try_catch_log_never_throws:
  "\<not> throws (try_catch body log_and_return_undefined) w"
  by (simp add: throws_def try_catch_def log_and_return_undefined_def js_await_def
      console_log_def js_return_def split: prod.splits sum.splits)

lemma try_catch_return_never_throws:
  "\<not> throws (try_catch body (\<lambda>error. js_await (console_log error) (\<lambda>_. js_return (h error)))) w"
  by (simp add: throws_def try_catch_def js_await_def
      console_log_def js_return_def split: prod.splits sum.splits)

lemma js_return_never_throws: "\<not> throws (js_return v) w"
  by (simp add: throws_def js_return_def)

lemma helpers_never_throw:
  "\<not> throws (uploadFile file) w"
  "\<not> throws (getFilePreview fileId) w"
  "\<not> throws (deleteFile fileId) w"
  "\<not> throws (saveUserToDB doc) w"
  by (simp_all add: uploadFile_def getFilePreview_def deleteFile_def saveUserToDB_def
      try_catch_log_never_throws)

lemma account_workflows_never_throw:
  "\<not> throws (createUserAccount user) w"
  "\<not> throws (signInAccount email password) w"
  "\<not> throws getCurrentUser w"
  "\<not> throws signOutAccount w"
  "\<not> throws getAccount w"
  "\<not> throws (getUserById userId) w"
  "\<not> throws (getUsers limit) w"
  "\<not> throws (updateUser uuser) w"
  by (simp_all add: createUserAccount_def signInAccount_def getCurrentUser_def
      signOutAccount_def getAccount_def getUserById_def getUsers_def updateUser_def Let_def
      try_catch_log_never_throws try_catch_return_never_throws)

lemma post_workflows_never_throw:
  "\<not> throws (createPost post) w"
  "\<not> throws (likePost postId likesArray) w"
  "\<not> throws (savePost userId postId) w"
  "\<not> throws (deleteSavedPost savedRecordId) w"
  "\<not> throws (updatePost upost) w"
  "\<not> throws (deletePost optPostId optImageId) w"
  "\<not> throws (getInfinitePosts pageParam) w"
  "\<not> throws (searchPosts searchTerm) w"
  "\<not> throws getRecentPosts w"
  "\<not> throws (getUserPosts optUserId) w"
  by (simp_all add: createPost_def likePost_def savePost_def deleteSavedPost_def updatePost_def
      deletePost_def getInfinitePosts_def searchPosts_def getRecentPosts_def getUserPosts_def
      Let_def try_catch_log_never_throws js_return_never_throws
      split: option.splits)

lemma getPostById_outcome:
  "postId = None \<or> postId = Some [] \<Longrightarrow> getPostById postId w = (Inl Error, w)"
  "i \<noteq> [] \<Longrightarrow> \<not> throws (getPostById (Some i)) w"
  "i \<noteq> [] \<Longrightarrow> fst (getPostById (Some i) w) =
      Inr (if reply_at w 0 = Accept then stored w PostCollection i else None)"
    apply (auto simp: getPostById_def js_throw_def try_catch_log_never_throws)[2]
  apply (simp add: getPostById_def js_defs sdk_defs split: reply.splits option.splits)
  done

lemma createUserAccount_first_step:
  "reply_at w 0 = Reject \<Longrightarrow> fst (createUserAccount user w) = Inr (Caught AppwriteException)"
  "reply_at w 0 = Falsy \<Longrightarrow> fst (createUserAccount user w) = Inr (Caught Error)"
  by (simp_all add: createUserAccount_def js_defs sdk_defs)

lemma createUserAccount_success:
  assumes "fst (createUserAccount user w) = Inr (NewUser (Some d))"
  shows "reply_at w 0 = Accept \<and> reply_at w 1 \<noteq> Reject \<and> reply_at w 2 = Accept"
proof -
  have "reply_at w 0 = Accept"
    using assms createUserAccount_first_step [of w user] by (cases "reply_at w 0") simp_all
  moreover have "reply_at w 1 \<noteq> Reject"
  proof
    assume "reply_at w 1 = Reject"
    with \<open>reply_at w 0 = Accept\<close> assms show False
      by (simp add: createUserAccount_def js_defs sdk_defs split: if_splits)
  qed
  moreover have "reply_at w 2 = Accept"
  proof (rule ccontr)
    assume "reply_at w 2 \<noteq> Accept"
    with \<open>reply_at w 0 = Accept\<close> \<open>reply_at w 1 \<noteq> Reject\<close> assms show False
      by (cases "reply_at w 1"; cases "reply_at w 2")
        (simp_all add: createUserAccount_def saveUserToDB_def js_defs sdk_defs numeral_2_eq_2
          split: if_splits option.splits)
  qed
  ultimately show ?thesis by simp
qed

lemma first_request_rejected_post:
  assumes "reply_at w 0 = Reject"
  shows "fst (createPost post w) = Inr None"
    and "fst (likePost postId likesArray w) = Inr None"
    and "fst (savePost userId postId w) = Inr None"
    and "fst (deleteSavedPost savedRecordId w) = Inr None"
    and "fst (updatePost upost w) = Inr None"
    and "fst (deletePost optPostId optImageId w) = Inr None"
    and "fst (getInfinitePosts pageParam w) = Inr None"
    and "fst (searchPosts searchTerm w) = Inr None"
    and "fst (getRecentPosts w) = Inr None"
    and "fst (getUserPosts optUserId w) = Inr None"
  using assms
  by (simp_all add: createPost_def likePost_def savePost_def deleteSavedPost_def updatePost_def
      deletePost_def getInfinitePosts_def searchPosts_def getRecentPosts_def getUserPosts_def
      js_defs sdk_defs helper_defs split: option.splits list.splits)

lemma first_request_rejected_account:
  assumes "reply_at w 0 = Reject"
  shows "fst (saveUserToDB doc w) = Inr None"
    and "fst (signInAccount email password w) = Inr None"
    and "fst (getCurrentUser w) = Inr None"
    and "fst (signOutAccount w) = Inr None"
    and "fst (uploadFile file w) = Inr None"
    and "fst (getFilePreview fileId w) = Inr None"
    and "fst (deleteFile fileId w) = Inr None"
    and "fst (getUsers limit w) = Inr None"
    and "fst (updateUser uuser w) = Inr None"
    and "fst (getUserById userId w) = Inr None"
    and "fst (getAccount w) = Inr None"
  using assms
  by (simp_all add: saveUserToDB_def signInAccount_def getCurrentUser_def signOutAccount_def
      getUsers_def updateUser_def getUserById_def getAccount_def
      js_defs sdk_defs helper_defs split: option.splits list.splits)

text \<open>
  When a workflow reports success. Each workflow returns a truthy value exactly when
  every step it takes, other than the deletion of a blob it tidies up with, succeeded:
  the service accepted the request, and the request found what it needs.
\<close>

lemma single_request_reported:
  "succeeds (getFilePreview fileId) w \<longleftrightarrow> reply_at w 0 = Accept"
  "succeeds (deleteFile fileId) w \<longleftrightarrow>
     reply_at w 0 = Falsy \<or> reply_at w 0 = Accept \<and> fileId \<in> set (files w)"
  "succeeds (uploadFile file) w \<longleftrightarrow>
     file \<noteq> None \<and> reply_at w 0 = Accept \<and> next_id w \<notin> set (files w)"
  "succeeds (saveUserToDB doc) w \<longleftrightarrow>
     reply_at w 0 = Accept \<and> stored w UserCollection (next_id w) = None"
  "succeeds (signInAccount email password) w \<longleftrightarrow>
     reply_at w 0 = Accept
     \<and> find (\<lambda>a. account_email a = email \<and> account_password a = password) (accounts w)
         \<noteq> None"
  "succeeds signOutAccount w \<longleftrightarrow> reply_at w 0 = Accept \<and> session w \<noteq> None"
  "succeeds getAccount w \<longleftrightarrow> reply_at w 0 = Accept \<and> current_account w \<noteq> None"
  by (auto simp add: succeeds_def getFilePreview_def deleteFile_def uploadFile_def
      saveUserToDB_def signInAccount_def signOutAccount_def getAccount_def current_account_def
      js_defs sdk_defs split: reply.splits option.splits)

lemma document_request_reported:
  "succeeds (likePost postId likesArray) w \<longleftrightarrow>
     reply_at w 0 = Accept \<and> stored w PostCollection postId \<noteq> None"
  "succeeds (savePost userId postId) w \<longleftrightarrow>
     reply_at w 0 = Accept \<and> stored w SavesCollection (next_id w) = None"
  "succeeds (deleteSavedPost savedRecordId) w \<longleftrightarrow>
     reply_at w 0 = Accept \<and> stored w SavesCollection savedRecordId \<noteq> None"
  "succeeds (getUserById userId) w \<longleftrightarrow>
     reply_at w 0 = Accept \<and> stored w UserCollection userId \<noteq> None"
  by (auto simp add: succeeds_def likePost_def savePost_def deleteSavedPost_def
      getUserById_def js_defs sdk_defs split: reply.splits option.splits)

lemma optional_id_reported:
  "succeeds (getPostById optId) w \<longleftrightarrow>
     (case optId of
        None \<Rightarrow> False
      | Some p \<Rightarrow> p \<noteq> [] \<and> reply_at w 0 = Accept \<and> stored w PostCollection p \<noteq> None)"
  "succeeds (deletePost optPostId optImageId) w \<longleftrightarrow>
     (case (optPostId, optImageId) of
        (Some p, Some b) \<Rightarrow>
          p \<noteq> [] \<and> b \<noteq> [] \<and> reply_at w 0 = Accept \<and> stored w PostCollection p \<noteq> None
      | _ \<Rightarrow> False)"
  "succeeds (getUserPosts optUserId) w \<longleftrightarrow>
     (case optUserId of None \<Rightarrow> False | Some u \<Rightarrow> u \<noteq> [] \<and> reply_at w 0 = Accept)"
  by (auto simp add: succeeds_def getPostById_def deletePost_def getUserPosts_def
      js_defs sdk_defs helper_defs split: reply.splits option.splits)

lemma list_request_reported:
  "succeeds (getInfinitePosts pageParam) w \<longleftrightarrow> reply_at w 0 = Accept"
  "succeeds (searchPosts searchTerm) w \<longleftrightarrow> reply_at w 0 = Accept"
  "succeeds (getUsers limit) w \<longleftrightarrow> reply_at w 0 = Accept"
  "succeeds getRecentPosts w \<longleftrightarrow> reply_at w 0 = Accept"
  by (auto simp add: succeeds_def getInfinitePosts_def searchPosts_def getUsers_def
      getRecentPosts_def js_defs sdk_defs split: reply.splits option.splits)

lemma getCurrentUser_reported:
  "succeeds getCurrentUser w \<longleftrightarrow>
     reply_at w 0 = Accept \<and> reply_at w 1 = Accept
     \<and> (case current_account w of
           None \<Rightarrow> False
         | Some acc \<Rightarrow>
             evaluate w [Equal ''accountId'' (account_id acc)]
               (map snd (filter (\<lambda>(k, d). fst k = UserCollection) (documents w))) \<noteq> [])"
  by (cases "reply_at w 0"; cases "reply_at w 1")
    (auto simp add: succeeds_def getCurrentUser_def current_account_def js_defs sdk_defs
      split: option.splits list.splits)

lemma createPost_reported:
  "succeeds (createPost post) w \<longleftrightarrow>
     np_file post \<noteq> [] \<and> reply_at w 0 = Accept \<and> next_id w \<notin> set (files w)
     \<and> reply_at w 1 = Accept \<and> reply_at w 2 = Accept
     \<and> stored w PostCollection (second_id w) = None"
  by (cases "np_file post"; cases "reply_at w 0"; cases "reply_at w 1"; cases "reply_at w 2";
      cases "reply_at w 3")
    (simp_all add: succeeds_def createPost_def js_defs sdk_defs helper_defs second_id_eq
      numeral_2_eq_2 numeral_3_eq_3 split: option.splits)

lemma updatePost_reported:
  "succeeds (updatePost post) w \<longleftrightarrow>
     (if up_file post = []
      then reply_at w 0 = Accept \<and> stored w PostCollection (up_postId post) \<noteq> None
      else reply_at w 0 = Accept \<and> next_id w \<notin> set (files w)
           \<and> reply_at w 1 = Accept \<and> reply_at w 2 = Accept
           \<and> stored w PostCollection (up_postId post) \<noteq> None)"
  by (cases "up_file post"; cases "reply_at w 0"; cases "reply_at w 1"; cases "reply_at w 2")
    (auto simp add: succeeds_def updatePost_def js_defs sdk_defs helper_defs numeral_2_eq_2
      numeral_3_eq_3 split: option.splits reply.splits)

lemma updateUser_reported:
  "succeeds (updateUser user) w \<longleftrightarrow>
     (if uu_file user = []
      then reply_at w 0 = Accept \<and> stored w UserCollection (uu_userId user) \<noteq> None
      else reply_at w 0 = Accept \<and> next_id w \<notin> set (files w)
           \<and> reply_at w 1 = Accept \<and> reply_at w 2 = Accept
           \<and> stored w UserCollection (uu_userId user) \<noteq> None)"
  by (cases "uu_file user"; cases "reply_at w 0"; cases "reply_at w 1"; cases "reply_at w 2")
    (auto simp add: succeeds_def updateUser_def js_defs sdk_defs helper_defs numeral_2_eq_2
      numeral_3_eq_3 split: option.splits reply.splits)

lemma createUserAccount_reported:
  "signed_up (createUserAccount user) w \<longleftrightarrow>
     reply_at w 0 = Accept
     \<and> \<not> list_ex (\<lambda>a. account_id a = next_id w \<or> account_email a = nu_email user)
           (accounts w)
     \<and> reply_at w 1 \<noteq> Reject \<and> reply_at w 2 = Accept
     \<and> stored w UserCollection (second_id w) = None"
  by (cases "reply_at w 0"; cases "reply_at w 1"; cases "reply_at w 2")
    (simp_all add: signed_up_def createUserAccount_def saveUserToDB_def js_defs sdk_defs
      second_id_eq numeral_2_eq_2 split: option.splits)

text \<open>
  getPostById without a post id throws to its caller. And a step that fails is not
  always reported: deletePost returns the status Ok although the deletion of the blob
  was rejected and the blob is still in the bucket.
\<close>

theorem getPostById_throws_deletePost_reports_ok:
  "getPostById None example_world = (Inl Error, example_world)
   \<and> throws (getPostById None) example_world
   \<and> fst (deletePost (Some ''p1'') (Some ''b1'') (example_world\<lparr>replies := [Accept, Reject]\<rparr>))
       = Inr (Some ''Ok'')
   \<and> files (snd (deletePost (Some ''p1'') (Some ''b1'')
                    (example_world\<lparr>replies := [Accept, Reject]\<rparr>))) = [''b1'', ''b9'']"
  by (simp add: getPostById_def throws_def deletePost_def example_defs run_defs)

text \<open>
  C8, as the code has it: no workflow other than getPostById throws to its caller,
  whatever its input and whatever the service answers. When the service rejects the
  first request of a workflow, the workflow returns \<^verbatim>\<open>undefined\<close>, and createUserAccount
  returns the exception it caught. getPostById with a post id that is not empty does
  not throw either: it returns the stored document when the request is accepted and
  the document exists, and \<^verbatim>\<open>undefined\<close> otherwise; with an absent or empty post id it
  throws \<^verbatim>\<open>Error\<close> and issues no call. createUserAccount returns a caught exception
  when the creation of the account is rejected or fulfilled with a falsy value, and
  it returns a user document only if the creation of the account was accepted, the
  avatar request was not rejected and the creation of the document was accepted.

  And the failure of any step is reported, the deletion of a blob after the document
  step apart: every workflow returns a truthy value (createUserAccount: a user
  document) exactly when each of its requests, in the order of the code, was accepted
  by the service and found what it needs (a blob id or document id that is free, a
  document, blob, session or account that exists), the input naming the file and the
  ids the workflow needs; a request that is rejected, that does not find what it needs
  or, where the code tests the result, that is fulfilled with a falsy value, makes the
  outcome \<^verbatim>\<open>undefined\<close> (for createUserAccount a caught exception or \<^verbatim>\<open>undefined\<close>).
  The deletions of a blob that deletePost, updatePost and updateUser issue after the
  document step do not appear in these conditions: their failure is not reported.
  getCurrentUser returns \<^verbatim>\<open>undefined\<close> also when no profile matches the account, and
  the avatar request of createUserAccount and the request of deleteFile may be
  fulfilled with a falsy value, which the code does not test.
\<close>

theorem workflows_catch_failures:
  "\<not> throws (createUserAccount user) w
   \<and> \<not> throws (saveUserToDB doc) w
   \<and> \<not> throws (signInAccount email password) w
   \<and> \<not> throws getCurrentUser w
   \<and> \<not> throws signOutAccount w
   \<and> \<not> throws (createPost post) w
   \<and> \<not> throws (uploadFile file) w
   \<and> \<not> throws (getFilePreview fileId) w
   \<and> \<not> throws (deleteFile fileId) w
   \<and> \<not> throws (likePost postId likesArray) w
   \<and> \<not> throws (savePost userId postId) w
   \<and> \<not> throws (deleteSavedPost savedRecordId) w
   \<and> \<not> throws (updatePost upost) w
   \<and> \<not> throws (deletePost optPostId optImageId) w
   \<and> \<not> throws (getInfinitePosts pageParam) w
   \<and> \<not> throws (searchPosts searchTerm) w
   \<and> \<not> throws (getUsers limit) w
   \<and> \<not> throws (updateUser uuser) w
   \<and> \<not> throws (getUserById userId) w
   \<and> \<not> throws getRecentPosts w
   \<and> \<not> throws (getUserPosts optUserId) w
   \<and> \<not> throws getAccount w
   \<and> (reply_at w 0 = Reject \<longrightarrow>
        fst (createUserAccount user w) = Inr (Caught AppwriteException)
        \<and> fst (saveUserToDB doc w) = Inr None
        \<and> fst (signInAccount email password w) = Inr None
        \<and> fst (getCurrentUser w) = Inr None
        \<and> fst (signOutAccount w) = Inr None
        \<and> fst (createPost post w) = Inr None
        \<and> fst (uploadFile file w) = Inr None
        \<and> fst (getFilePreview fileId w) = Inr None
        \<and> fst (deleteFile fileId w) = Inr None
        \<and> fst (likePost postId likesArray w) = Inr None
        \<and> fst (savePost userId postId w) = Inr None
        \<and> fst (deleteSavedPost savedRecordId w) = Inr None
        \<and> fst (updatePost upost w) = Inr None
        \<and> fst (deletePost optPostId optImageId w) = Inr None
        \<and> fst (getInfinitePosts pageParam w) = Inr None
        \<and> fst (searchPosts searchTerm w) = Inr None
        \<and> fst (getUsers limit w) = Inr None
        \<and> fst (updateUser uuser w) = Inr None
        \<and> fst (getUserById userId w) = Inr None
        \<and> fst (getRecentPosts w) = Inr None
        \<and> fst (getUserPosts optUserId w) = Inr None
        \<and> fst (getAccount w) = Inr None)
   \<and> (i \<noteq> [] \<longrightarrow>
        \<not> throws (getPostById (Some i)) w
        \<and> fst (getPostById (Some i) w) =
            Inr (if reply_at w 0 = Accept then stored w PostCollection i else None))
   \<and> (optId = None \<or> optId = Some [] \<longrightarrow> getPostById optId w = (Inl Error, w))
   \<and> (reply_at w 0 = Falsy \<longrightarrow> fst (createUserAccount user w) = Inr (Caught Error))
   \<and> (fst (createUserAccount user w) = Inr (NewUser (Some d)) \<longrightarrow>
        reply_at w 0 = Accept \<and> reply_at w 1 \<noteq> Reject \<and> reply_at w 2 = Accept)
   \<and> (signed_up (createUserAccount user) w \<longleftrightarrow>
        reply_at w 0 = Accept
        \<and> \<not> list_ex (\<lambda>a. account_id a = next_id w \<or> account_email a = nu_email user)
              (accounts w)
        \<and> reply_at w 1 \<noteq> Reject \<and> reply_at w 2 = Accept
        \<and> stored w UserCollection (second_id w) = None)
   \<and> (succeeds (saveUserToDB doc) w \<longleftrightarrow>
        reply_at w 0 = Accept \<and> stored w UserCollection (next_id w) = None)
   \<and> (succeeds (signInAccount email password) w \<longleftrightarrow>
        reply_at w 0 = Accept
        \<and> find (\<lambda>a. account_email a = email \<and> account_password a = password) (accounts w)
            \<noteq> None)
   \<and> (succeeds getCurrentUser w \<longleftrightarrow>
        reply_at w 0 = Accept \<and> reply_at w 1 = Accept
        \<and> (case current_account w of
              None \<Rightarrow> False
            | Some acc \<Rightarrow>
                evaluate w [Equal ''accountId'' (account_id acc)]
                  (map snd (filter (\<lambda>(k, d). fst k = UserCollection) (documents w))) \<noteq> []))
   \<and> (succeeds signOutAccount w \<longleftrightarrow> reply_at w 0 = Accept \<and> session w \<noteq> None)
   \<and> (succeeds (createPost post) w \<longleftrightarrow>
        np_file post \<noteq> [] \<and> reply_at w 0 = Accept \<and> next_id w \<notin> set (files w)
        \<and> reply_at w 1 = Accept \<and> reply_at w 2 = Accept
        \<and> stored w PostCollection (second_id w) = None)
   \<and> (succeeds (uploadFile file) w \<longleftrightarrow>
        file \<noteq> None \<and> reply_at w 0 = Accept \<and> next_id w \<notin> set (files w))
   \<and> (succeeds (getFilePreview fileId) w \<longleftrightarrow> reply_at w 0 = Accept)
   \<and> (succeeds (deleteFile fileId) w \<longleftrightarrow>
        reply_at w 0 = Falsy \<or> reply_at w 0 = Accept \<and> fileId \<in> set (files w))
   \<and> (succeeds (likePost postId likesArray) w \<longleftrightarrow>
        reply_at w 0 = Accept \<and> stored w PostCollection postId \<noteq> None)
   \<and> (succeeds (savePost userId postId) w \<longleftrightarrow>
        reply_at w 0 = Accept \<and> stored w SavesCollection (next_id w) = None)
   \<and> (succeeds (deleteSavedPost savedRecordId) w \<longleftrightarrow>
        reply_at w 0 = Accept \<and> stored w SavesCollection savedRecordId \<noteq> None)
   \<and> (succeeds (getPostById optId) w \<longleftrightarrow>
        (case optId of
           None \<Rightarrow> False
         | Some p \<Rightarrow> p \<noteq> [] \<and> reply_at w 0 = Accept \<and> stored w PostCollection p \<noteq> None))
   \<and> (succeeds (updatePost upost) w \<longleftrightarrow>
        (if up_file upost = []
         then reply_at w 0 = Accept \<and> stored w PostCollection (up_postId upost) \<noteq> None
         else reply_at w 0 = Accept \<and> next_id w \<notin> set (files w)
              \<and> reply_at w 1 = Accept \<and> reply_at w 2 = Accept
              \<and> stored w PostCollection (up_postId upost) \<noteq> None))
   \<and> (succeeds (deletePost optPostId optImageId) w \<longleftrightarrow>
        (case (optPostId, optImageId) of
           (Some p, Some b) \<Rightarrow>
             p \<noteq> [] \<and> b \<noteq> [] \<and> reply_at w 0 = Accept \<and> stored w PostCollection p \<noteq> None
         | _ \<Rightarrow> False))
   \<and> (succeeds (getInfinitePosts pageParam) w \<longleftrightarrow> reply_at w 0 = Accept)
   \<and> (succeeds (searchPosts searchTerm) w \<longleftrightarrow> reply_at w 0 = Accept)
   \<and> (succeeds (getUsers limit) w \<longleftrightarrow> reply_at w 0 = Accept)
   \<and> (succeeds (updateUser uuser) w \<longleftrightarrow>
        (if uu_file uuser = []
         then reply_at w 0 = Accept \<and> stored w UserCollection (uu_userId uuser) \<noteq> None
         else reply_at w 0 = Accept \<and> next_id w \<notin> set (files w)
              \<and> reply_at w 1 = Accept \<and> reply_at w 2 = Accept
              \<and> stored w UserCollection (uu_userId uuser) \<noteq> None))
   \<and> (succeeds (getUserById userId) w \<longleftrightarrow>
        reply_at w 0 = Accept \<and> stored w UserCollection userId \<noteq> None)
   \<and> (succeeds getRecentPosts w \<longleftrightarrow> reply_at w 0 = Accept)
   \<and> (succeeds (getUserPosts optUserId) w \<longleftrightarrow>
        (case optUserId of None \<Rightarrow> False | Some u \<Rightarrow> u \<noteq> [] \<and> reply_at w 0 = Accept))
   \<and> (succeeds getAccount w \<longleftrightarrow> reply_at w 0 = Accept \<and> current_account w \<noteq> None)"
proof -
  have never: "\<not> throws (createUserAccount user) w
   \<and> \<not> throws (saveUserToDB doc) w
   \<and> \<not> throws (signInAccount email password) w
   \<and> \<not> throws getCurrentUser w
   \<and> \<not> throws signOutAccount w
   \<and> \<not> throws (createPost post) w
   \<and> \<not> throws (uploadFile file) w
   \<and> \<not> throws (getFilePreview fileId) w
   \<and> \<not> throws (deleteFile fileId) w
   \<and> \<not> throws (likePost postId likesArray) w
   \<and> \<not> throws (savePost userId postId) w
   \<and> \<not> throws (deleteSavedPost savedRecordId) w
   \<and> \<not> throws (updatePost upost) w
   \<and> \<not> throws (deletePost optPostId optImageId) w
   \<and> \<not> throws (getInfinitePosts pageParam) w
   \<and> \<not> throws (searchPosts searchTerm) w
   \<and> \<not> throws (getUsers limit) w
   \<and> \<not> throws (updateUser uuser) w
   \<and> \<not> throws (getUserById userId) w
   \<and> \<not> throws getRecentPosts w
   \<and> \<not> throws (getUserPosts optUserId) w
   \<and> \<not> throws getAccount w"
    by (intro conjI helpers_never_throw account_workflows_never_throw
        post_workflows_never_throw)
  have byId: "i \<noteq> [] \<longrightarrow>
        \<not> throws (getPostById (Some i)) w
        \<and> fst (getPostById (Some i) w) =
            Inr (if reply_at w 0 = Accept then stored w PostCollection i else None)"
    using getPostById_outcome(2,3) [of i w] by blast
  have absent: "optId = None \<or> optId = Some [] \<longrightarrow> getPostById optId w = (Inl Error, w)"
    using getPostById_outcome(1) [of optId w] by blast
  have account: "(reply_at w 0 = Falsy \<longrightarrow> fst (createUserAccount user w) = Inr (Caught Error))
   \<and> (fst (createUserAccount user w) = Inr (NewUser (Some d)) \<longrightarrow>
        reply_at w 0 = Accept \<and> reply_at w 1 \<noteq> Reject \<and> reply_at w 2 = Accept)"
    using createUserAccount_first_step(2) [of w user] createUserAccount_success [of user w d]
    by blast
  have rejected: "reply_at w 0 = Reject \<longrightarrow>
        fst (createUserAccount user w) = Inr (Caught AppwriteException)
        \<and> fst (saveUserToDB doc w) = Inr None
        \<and> fst (signInAccount email password w) = Inr None
        \<and> fst (getCurrentUser w) = Inr None
        \<and> fst (signOutAccount w) = Inr None
        \<and> fst (createPost post w) = Inr None
        \<and> fst (uploadFile file w) = Inr None
        \<and> fst (getFilePreview fileId w) = Inr None
        \<and> fst (deleteFile fileId w) = Inr None
        \<and> fst (likePost postId likesArray w) = Inr None
        \<and> fst (savePost userId postId w) = Inr None
        \<and> fst (deleteSavedPost savedRecordId w) = Inr None
        \<and> fst (updatePost upost w) = Inr None
        \<and> fst (deletePost optPostId optImageId w) = Inr None
        \<and> fst (getInfinitePosts pageParam w) = Inr None
        \<and> fst (searchPosts searchTerm w) = Inr None
        \<and> fst (getUsers limit w) = Inr None
        \<and> fst (updateUser uuser w) = Inr None
        \<and> fst (getUserById userId w) = Inr None
        \<and> fst (getRecentPosts w) = Inr None
        \<and> fst (getUserPosts optUserId w) = Inr None
        \<and> fst (getAccount w) = Inr None"
    by (intro impI conjI createUserAccount_first_step(1) first_request_rejected_post
        first_request_rejected_account)
  have reported: "(signed_up (createUserAccount user) w \<longleftrightarrow>
        reply_at w 0 = Accept
        \<and> \<not> list_ex (\<lambda>a. account_id a = next_id w \<or> account_email a = nu_email user)
              (accounts w)
        \<and> reply_at w 1 \<noteq> Reject \<and> reply_at w 2 = Accept
        \<and> stored w UserCollection (second_id w) = None)
   \<and> (succeeds (saveUserToDB doc) w \<longleftrightarrow>
        reply_at w 0 = Accept \<and> stored w UserCollection (next_id w) = None)
   \<and> (succeeds (signInAccount email password) w \<longleftrightarrow>
        reply_at w 0 = Accept
        \<and> find (\<lambda>a. account_email a = email \<and> account_password a = password) (accounts w)
            \<noteq> None)
   \<and> (succeeds getCurrentUser w \<longleftrightarrow>
        reply_at w 0 = Accept \<and> reply_at w 1 = Accept
        \<and> (case current_account w of
              None \<Rightarrow> False
            | Some acc \<Rightarrow>
                evaluate w [Equal ''accountId'' (account_id acc)]
                  (map snd (filter (\<lambda>(k, d). fst k = UserCollection) (documents w))) \<noteq> []))
   \<and> (succeeds signOutAccount w \<longleftrightarrow> reply_at w 0 = Accept \<and> session w \<noteq> None)
   \<and> (succeeds (createPost post) w \<longleftrightarrow>
        np_file post \<noteq> [] \<and> reply_at w 0 = Accept \<and> next_id w \<notin> set (files w)
        \<and> reply_at w 1 = Accept \<and> reply_at w 2 = Accept
        \<and> stored w PostCollection (second_id w) = None)
   \<and> (succeeds (uploadFile file) w \<longleftrightarrow>
        file \<noteq> None \<and> reply_at w 0 = Accept \<and> next_id w \<notin> set (files w))
   \<and> (succeeds (getFilePreview fileId) w \<longleftrightarrow> reply_at w 0 = Accept)
   \<and> (succeeds (deleteFile fileId) w \<longleftrightarrow>
        reply_at w 0 = Falsy \<or> reply_at w 0 = Accept \<and> fileId \<in> set (files w))
   \<and> (succeeds (likePost postId likesArray) w \<longleftrightarrow>
        reply_at w 0 = Accept \<and> stored w PostCollection postId \<noteq> None)
   \<and> (succeeds (savePost userId postId) w \<longleftrightarrow>
        reply_at w 0 = Accept \<and> stored w SavesCollection (next_id w) = None)
   \<and> (succeeds (deleteSavedPost savedRecordId) w \<longleftrightarrow>
        reply_at w 0 = Accept \<and> stored w SavesCollection savedRecordId \<noteq> None)
   \<and> (succeeds (getPostById optId) w \<longleftrightarrow>
        (case optId of
           None \<Rightarrow> False
         | Some p \<Rightarrow> p \<noteq> [] \<and> reply_at w 0 = Accept \<and> stored w PostCollection p \<noteq> None))
   \<and> (succeeds (updatePost upost) w \<longleftrightarrow>
        (if up_file upost = []
         then reply_at w 0 = Accept \<and> stored w PostCollection (up_postId upost) \<noteq> None
         else reply_at w 0 = Accept \<and> next_id w \<notin> set (files w)
              \<and> reply_at w 1 = Accept \<and> reply_at w 2 = Accept
              \<and> stored w PostCollection (up_postId upost) \<noteq> None))
   \<and> (succeeds (deletePost optPostId optImageId) w \<longleftrightarrow>
        (case (optPostId, optImageId) of
           (Some p, Some b) \<Rightarrow>
             p \<noteq> [] \<and> b \<noteq> [] \<and> reply_at w 0 = Accept \<and> stored w PostCollection p \<noteq> None
         | _ \<Rightarrow> False))
   \<and> (succeeds (getInfinitePosts pageParam) w \<longleftrightarrow> reply_at w 0 = Accept)
   \<and> (succeeds (searchPosts searchTerm) w \<longleftrightarrow> reply_at w 0 = Accept)
   \<and> (succeeds (getUsers limit) w \<longleftrightarrow> reply_at w 0 = Accept)
   \<and> (succeeds (updateUser uuser) w \<longleftrightarrow>
        (if uu_file uuser = []
         then reply_at w 0 = Accept \<and> stored w UserCollection (uu_userId uuser) \<noteq> None
         else reply_at w 0 = Accept \<and> next_id w \<notin> set (files w)
              \<and> reply_at w 1 = Accept \<and> reply_at w 2 = Accept
              \<and> stored w UserCollection (uu_userId uuser) \<noteq> None))
   \<and> (succeeds (getUserById userId) w \<longleftrightarrow>
        reply_at w 0 = Accept \<and> stored w UserCollection userId \<noteq> None)
   \<and> (succeeds getRecentPosts w \<longleftrightarrow> reply_at w 0 = Accept)
   \<and> (succeeds (getUserPosts optUserId) w \<longleftrightarrow>
        (case optUserId of None \<Rightarrow> False | Some u \<Rightarrow> u \<noteq> [] \<and> reply_at w 0 = Accept))
   \<and> (succeeds getAccount w \<longleftrightarrow> reply_at w 0 = Accept \<and> current_account w \<noteq> None)"
    by (intro conjI createUserAccount_reported single_request_reported
        document_request_reported optional_id_reported list_request_reported
        getCurrentUser_reported createPost_reported updatePost_reported updateUser_reported)
  from never rejected byId absent account reported show ?thesis
    by blast
qed

theorem workflows_catch_failures_witness:
  "\<not> throws (createPost example_new_post) (example_world\<lparr>replies := [Reject]\<rparr>)
   \<and> \<not> throws (getPostById (Some ''p1'')) (example_world\<lparr>replies := [Reject]\<rparr>)
   \<and> fst (getPostById (Some ''p1'') (example_world\<lparr>replies := [Reject]\<rparr>)) = Inr None
   \<and> getPostById (Some []) (example_world\<lparr>replies := [Reject]\<rparr>) =
       (Inl Error, example_world\<lparr>replies := [Reject]\<rparr>)
   \<and> fst (createUserAccount example_new_user (example_world\<lparr>replies := [Reject]\<rparr>)) =
       Inr (Caught AppwriteException)
   \<and> fst (createPost example_new_post (example_world\<lparr>replies := [Reject]\<rparr>)) = Inr None
   \<and> fst (createUserAccount example_new_user (example_world\<lparr>replies := [Falsy]\<rparr>)) =
       Inr (Caught Error)
   \<and> fst (getPostById (Some ''p1'') example_world) =
       Inr (Some [(''$id'', JStr ''p1''), (''creator'', JStr ''u1''),
                  (''caption'', JStr ''Hello''), (''imageUrl'', JStr ''url1''),
                  (''imageId'', JStr ''b1''), (''location'', JStr ''Oslo''),
                  (''tags'', JList [])])
   \<and> fst (getPostById (Some ''p7'') example_world) = Inr None
   \<and> fst (createUserAccount example_new_user example_world) =
       Inr (NewUser (Some [(''$id'', JStr ''p2''), (''accountId'', JStr ''b2''),
                           (''name'', JStr ''Bob''), (''email'', JStr ''bob@example.org''),
                           (''username'', JStr ''bob''),
                           (''imageUrl'', JStr ''/avatars/initials?name=Bob'')]))
   \<and> reply_at example_world 0 = Accept
   \<and> reply_at example_world 1 \<noteq> Reject
   \<and> reply_at example_world 2 = Accept
   \<and> succeeds (createPost example_new_post) example_world
   \<and> signed_up (createUserAccount example_new_user) example_world
   \<and> succeeds (updatePost example_update_post) example_world
   \<and> succeeds (updateUser example_update_user) example_world
   \<and> \<not> succeeds getCurrentUser example_world
   \<and> \<not> succeeds (createPost example_new_post)
          (example_world\<lparr>replies := [Accept, Accept, Reject]\<rparr>)
   \<and> \<not> succeeds (updatePost example_update_post)
          (example_world\<lparr>replies := [Accept, Accept, Reject]\<rparr>)
   \<and> \<not> succeeds (updateUser example_update_user)
          (example_world\<lparr>replies := [Accept, Accept, Reject]\<rparr>)
   \<and> \<not> signed_up (createUserAccount example_new_user)
          (example_world\<lparr>replies := [Accept, Accept, Reject]\<rparr>)
   \<and> succeeds (deletePost (Some ''p1'') (Some ''b1''))
        (example_world\<lparr>replies := [Accept, Reject]\<rparr>)"
proof -
  have account_made: "fst (createUserAccount example_new_user example_world) =
       Inr (NewUser (Some [(''$id'', JStr ''p2''), (''accountId'', JStr ''b2''),
                           (''name'', JStr ''Bob''), (''email'', JStr ''bob@example.org''),
                           (''username'', JStr ''bob''),
                           (''imageUrl'', JStr ''/avatars/initials?name=Bob'')]))"
    by (simp add: createUserAccount_def example_defs run_defs)
  have old: "\<not> throws (createPost example_new_post) (example_world\<lparr>replies := [Reject]\<rparr>)
   \<and> \<not> throws (getPostById (Some ''p1'')) (example_world\<lparr>replies := [Reject]\<rparr>)
   \<and> fst (getPostById (Some ''p1'') (example_world\<lparr>replies := [Reject]\<rparr>)) = Inr None
   \<and> getPostById (Some []) (example_world\<lparr>replies := [Reject]\<rparr>) =
       (Inl Error, example_world\<lparr>replies := [Reject]\<rparr>)
   \<and> fst (createUserAccount example_new_user (example_world\<lparr>replies := [Reject]\<rparr>)) =
       Inr (Caught AppwriteException)
   \<and> fst (createPost example_new_post (example_world\<lparr>replies := [Reject]\<rparr>)) = Inr None
   \<and> fst (createUserAccount example_new_user (example_world\<lparr>replies := [Falsy]\<rparr>)) =
       Inr (Caught Error)
   \<and> fst (getPostById (Some ''p1'') example_world) =
       Inr (Some [(''$id'', JStr ''p1''), (''creator'', JStr ''u1''),
                  (''caption'', JStr ''Hello''), (''imageUrl'', JStr ''url1''),
                  (''imageId'', JStr ''b1''), (''location'', JStr ''Oslo''),
                  (''tags'', JList [])])
   \<and> fst (getPostById (Some ''p7'') example_world) = Inr None
   \<and> fst (createUserAccount example_new_user example_world) =
       Inr (NewUser (Some [(''$id'', JStr ''p2''), (''accountId'', JStr ''b2''),
                           (''name'', JStr ''Bob''), (''email'', JStr ''bob@example.org''),
                           (''username'', JStr ''bob''),
                           (''imageUrl'', JStr ''/avatars/initials?name=Bob'')]))
   \<and> reply_at example_world 0 = Accept
   \<and> reply_at example_world 1 \<noteq> Reject
   \<and> reply_at example_world 2 = Accept"
    using workflows_catch_failures
      [where user = example_new_user and w = "example_world\<lparr>replies := [Reject]\<rparr>"
         and post = example_new_post and i = "''p1''" and optId = "Some []"]
    workflows_catch_failures
      [where user = example_new_user and w = "example_world\<lparr>replies := [Falsy]\<rparr>"]
    workflows_catch_failures
      [where user = example_new_user and w = example_world and i = "''p1''"
         and d = "[(''$id'', JStr ''p2''), (''accountId'', JStr ''b2''),
                   (''name'', JStr ''Bob''), (''email'', JStr ''bob@example.org''),
                   (''username'', JStr ''bob''),
                   (''imageUrl'', JStr ''/avatars/initials?name=Bob'')]"]
    workflows_catch_failures [where w = example_world and i = "''p7''"]
    account_made
    by (simp add: reply_at_def example_world_def stored_def)
  have vals: "reply_at example_world 0 = Accept" "reply_at example_world (Suc 0) = Accept"
    "reply_at example_world 2 = Accept"
    "reply_at (example_world\<lparr>replies := [Accept, Accept, Reject]\<rparr>) 0 = Accept"
    "reply_at (example_world\<lparr>replies := [Accept, Accept, Reject]\<rparr>) (Suc 0) = Accept"
    "reply_at (example_world\<lparr>replies := [Accept, Accept, Reject]\<rparr>) 2 = Reject"
    "reply_at (example_world\<lparr>replies := [Accept, Reject]\<rparr>) 0 = Accept"
    "next_id example_world = ''b2''" "second_id example_world = ''p2''"
    "files example_world = [''b1'', ''b9'']" "accounts example_world = []"
    "current_account example_world = None"
    "stored example_world PostCollection ''p2'' = None"
    "stored example_world UserCollection ''p2'' = None"
    "stored example_world PostCollection ''p1'' \<noteq> None"
    "stored example_world UserCollection ''u1'' \<noteq> None"
    "stored (example_world\<lparr>replies := [Accept, Reject]\<rparr>) PostCollection ''p1'' \<noteq> None"
    "np_file example_new_post = [''bytes'']" "up_file example_update_post = [''bytes'']"
    "uu_file example_update_user = [''bytes'']" "up_postId example_update_post = ''p1''"
    "uu_userId example_update_user = ''u1''"
    by (simp_all add: reply_at_def next_id_def second_id_def current_account_def stored_def
        example_defs numeral_2_eq_2)
  note ok = workflows_catch_failures
      [where user = example_new_user and w = example_world and post = example_new_post
         and upost = example_update_post and uuser = example_update_user]
  note ko = workflows_catch_failures
      [where user = example_new_user
         and w = "example_world\<lparr>replies := [Accept, Accept, Reject]\<rparr>"
         and post = example_new_post and upost = example_update_post
         and uuser = example_update_user]
  note del = workflows_catch_failures
      [where w = "example_world\<lparr>replies := [Accept, Reject]\<rparr>"
         and optPostId = "Some ''p1''" and optImageId = "Some ''b1''"]
  have "succeeds (createPost example_new_post) example_world"
    "signed_up (createUserAccount example_new_user) example_world"
    "succeeds (updatePost example_update_post) example_world"
    "succeeds (updateUser example_update_user) example_world"
    "\<not> succeeds getCurrentUser example_world"
    using ok by (simp_all add: vals)
  moreover have "\<not> succeeds (createPost example_new_post)
          (example_world\<lparr>replies := [Accept, Accept, Reject]\<rparr>)"
    "\<not> succeeds (updatePost example_update_post)
          (example_world\<lparr>replies := [Accept, Accept, Reject]\<rparr>)"
    "\<not> succeeds (updateUser example_update_user)
          (example_world\<lparr>replies := [Accept, Accept, Reject]\<rparr>)"
    "\<not> signed_up (createUserAccount example_new_user)
          (example_world\<lparr>replies := [Accept, Accept, Reject]\<rparr>)"
    using ko by (simp_all add: vals)
  moreover have "succeeds (deletePost (Some ''p1'') (Some ''b1''))
        (example_world\<lparr>replies := [Accept, Reject]\<rparr>)"
    using del by (simp add: vals)
  ultimately show ?thesis
    using old by simp
qed

end
